theory Spec2Isabelle
  imports Main "HOL-Library.Sublist"
begin

section \<open>Python values and calls of the requests library\<close>

text \<open>
  The values that travel through the client: \<open>None\<close>, strings, numbers, dictionaries
  (the \<open>params\<close>, \<open>data\<close> and \<open>json\<close> payloads) and the \<open>HTTPBasicAuth\<close> object built by
  \<open>setup_credentials\<close>. The client never looks inside a payload.
\<close>

datatype HTTPBasicAuth = HTTPBasicAuth string string

datatype pyval =
    PyNone
  | PyBool bool
  | PyInt int
  | PyStr string
  | PyAuth HTTPBasicAuth
  | PyList "pyval list"
  | PyDict "(string \<times> pyval) list"

text \<open>\<open>**kwargs\<close>: a dictionary with string keys.\<close>

type_synonym kwargs = "string \<Rightarrow> pyval option"

text \<open>
  One call of \<open>requests.get\<close>, \<open>requests.post\<close>, \<open>requests.put\<close> or \<open>requests.delete\<close>:
  the function called, its positional arguments and its keyword arguments, as the call
  expression of the source passes them.
\<close>

datatype verb = GET | POST | PUT | DELETE

record call =
  func :: verb
  args :: "pyval list"
  keyword_args :: kwargs

text \<open>
  An exception is a value: \<open>TypeError k\<close> is what Python raises when a call expression
  gives the argument \<open>k\<close> twice (once by name or position, once through \<open>**kwargs\<close>);
  \<open>Raised x\<close> is an exception \<open>x\<close> of the requests library, which the client lets through.
\<close>

datatype 'x exn = TypeError string | Raised 'x

text \<open>
  The requests library and the server behind it are a parameter: given the calls made so
  far and the present call, an exception or a response.
\<close>

type_synonym ('x, 'r) requests = "call list \<Rightarrow> call \<Rightarrow> 'x + 'r"

section \<open>The Orthanc object\<close>

text \<open>
  The fields \<open>_orthanc_url\<close>, \<open>_credentials_are_set\<close> and \<open>_credentials\<close> of class
  \<open>Orthanc\<close> (an Isabelle name cannot start with an underscore).
\<close>

record orthanc =
  orthanc_url :: string
  credentials_are_set :: bool
  credentials :: "HTTPBasicAuth option"

text \<open>The state a method runs in: the object, and the calls of the library made so far.\<close>

record state =
  obj :: orthanc
  sent :: "call list"

definition Orthanc :: "string \<Rightarrow> orthanc" where
  "Orthanc url = \<lparr>orthanc_url = url, credentials_are_set = False, credentials = None\<rparr>"

definition init :: "string \<Rightarrow> state" where
  "init url = \<lparr>obj = Orthanc url, sent = []\<rparr>"

definition setup_credentials :: "orthanc \<Rightarrow> string \<Rightarrow> string \<Rightarrow> orthanc" where
  "setup_credentials self username password =
     self\<lparr>credentials := Some (HTTPBasicAuth username password),
          credentials_are_set := True\<rparr>"

text \<open>The value of \<open>self._credentials\<close> as an argument.\<close>

definition auth_arg :: "orthanc \<Rightarrow> pyval" where
  "auth_arg self = (case credentials self of None \<Rightarrow> PyNone | Some a \<Rightarrow> PyAuth a)"

section \<open>The four verb helpers\<close>

text \<open>
  The requests library declares \<open>get(url, params=None, **kwargs)\<close>,
  \<open>post(url, data=None, json=None, **kwargs)\<close>, \<open>put(url, data=None, **kwargs)\<close> and
  \<open>delete(url, **kwargs)\<close>: an argument passed by position is the parameter of that
  position.
\<close>

fun positional_names :: "verb \<Rightarrow> string list" where
  "positional_names GET = [''url'', ''params'']"
| "positional_names POST = [''url'', ''data'', ''json'']"
| "positional_names PUT = [''url'', ''data'']"
| "positional_names DELETE = [''url'']"

text \<open>Reading an argument of a call by its name, whether it was passed by position or not.\<close>

definition argument :: "call \<Rightarrow> string \<Rightarrow> pyval option" where
  "argument c k =
     (case map_of (zip (positional_names (func c)) (args c)) k of
        Some v \<Rightarrow> Some v
      | None \<Rightarrow> keyword_args c k)"

text \<open>What the caller sees of the library's answer: its exception or its response, as it is.\<close>

definition outcome :: "'x + 'r \<Rightarrow> 'x exn + 'r" where
  "outcome y = (case y of Inl x \<Rightarrow> Inl (Raised x) | Inr r \<Rightarrow> Inr r)"

text \<open>
  A call expression \<open>f(positional, k1=v1, ..., **kwargs)\<close>: Python raises TypeError when a
  key of \<open>kwargs\<close> is one of the keywords written out, and then when a keyword names a
  parameter of \<open>f\<close> that is already bound by position (\<open>url\<close> for the route, and \<open>data\<close>
  where \<open>put_request\<close> passes it by position). In both cases \<open>f\<close> is not entered.
  Otherwise \<open>f\<close> receives the keywords written out together with those of \<open>kwargs\<close>.
\<close>

definition duplicate :: "string list \<Rightarrow> kwargs \<Rightarrow> string option" where
  "duplicate names kwargs = find (\<lambda>k. kwargs k \<noteq> None) names"

definition py_call ::
  "('x, 'r) requests \<Rightarrow> verb \<Rightarrow> pyval list \<Rightarrow> (string \<times> pyval) list \<Rightarrow> kwargs \<Rightarrow> state
     \<Rightarrow> ('x exn + 'r) \<times> state" where
  "py_call lib f positional explicit kwargs s =
     (case duplicate (map fst explicit) kwargs of
        Some k \<Rightarrow> (Inl (TypeError k), s)
      | None \<Rightarrow>
          (case duplicate (take (length positional) (positional_names f))
                  (kwargs ++ map_of explicit) of
             Some k \<Rightarrow> (Inl (TypeError k), s)
           | None \<Rightarrow>
               (let c = \<lparr>func = f, args = positional,
                          keyword_args = kwargs ++ map_of explicit\<rparr>
                in (outcome (lib (sent s) c), s\<lparr>sent := sent s @ [c]\<rparr>))))"

definition get_request ::
  "('x, 'r) requests \<Rightarrow> string \<Rightarrow> pyval \<Rightarrow> kwargs \<Rightarrow> state \<Rightarrow> ('x exn + 'r) \<times> state" where
  "get_request lib route params kwargs s =
     (if credentials_are_set (obj s) then
        py_call lib GET [PyStr route]
          [(''params'', params), (''auth'', auth_arg (obj s))] kwargs s
      else py_call lib GET [PyStr route] [(''params'', params)] kwargs s)"

definition delete_request ::
  "('x, 'r) requests \<Rightarrow> string \<Rightarrow> kwargs \<Rightarrow> state \<Rightarrow> ('x exn + 'r) \<times> state" where
  "delete_request lib route kwargs s =
     (if credentials_are_set (obj s) then
        py_call lib DELETE [PyStr route] [(''auth'', auth_arg (obj s))] kwargs s
      else py_call lib DELETE [PyStr route] [] kwargs s)"

definition post_request ::
  "('x, 'r) requests \<Rightarrow> string \<Rightarrow> pyval \<Rightarrow> pyval \<Rightarrow> kwargs \<Rightarrow> state
     \<Rightarrow> ('x exn + 'r) \<times> state" where
  "post_request lib route data json kwargs s =
     (if credentials_are_set (obj s) then
        py_call lib POST [PyStr route]
          [(''auth'', auth_arg (obj s)), (''data'', data), (''json'', json)] kwargs s
      else py_call lib POST [PyStr route] [(''data'', data), (''json'', json)] kwargs s)"

text \<open>Without credentials \<open>put_request\<close> passes \<open>data\<close> by position, as the source does.\<close>

definition put_request ::
  "('x, 'r) requests \<Rightarrow> string \<Rightarrow> pyval \<Rightarrow> pyval \<Rightarrow> kwargs \<Rightarrow> state
     \<Rightarrow> ('x exn + 'r) \<times> state" where
  "put_request lib route data json kwargs s =
     (if credentials_are_set (obj s) then
        py_call lib PUT [PyStr route]
          [(''auth'', auth_arg (obj s)), (''data'', data), (''json'', json)] kwargs s
      else py_call lib PUT [PyStr route, data] [(''json'', json)] kwargs s)"

section \<open>Endpoint methods\<close>

text \<open>
  The body of every endpoint method is one \<open>return self.X_request(route, ..., **kwargs)\<close>.
  A \<open>request\<close> is that delegation: the helper and the arguments written out in the body.
\<close>

datatype request =
    Get_request string pyval
  | Delete_request string
  | Post_request string pyval pyval
  | Put_request string pyval pyval

fun route :: "request \<Rightarrow> string" where
  "route (Get_request r _) = r"
| "route (Delete_request r) = r"
| "route (Post_request r _ _) = r"
| "route (Put_request r _ _) = r"

fun helper_verb :: "request \<Rightarrow> verb" where
  "helper_verb (Get_request _ _) = GET"
| "helper_verb (Delete_request _) = DELETE"
| "helper_verb (Post_request _ _ _) = POST"
| "helper_verb (Put_request _ _ _) = PUT"

text \<open>The payload arguments written out in the delegation, by name.\<close>

fun payload :: "request \<Rightarrow> (string \<times> pyval) list" where
  "payload (Get_request _ params) = [(''params'', params)]"
| "payload (Delete_request _) = []"
| "payload (Post_request _ data json) = [(''data'', data), (''json'', json)]"
| "payload (Put_request _ data json) = [(''data'', data), (''json'', json)]"

text \<open>Calling the helper with its parameters bound.\<close>

fun helper ::
  "('x, 'r) requests \<Rightarrow> request \<Rightarrow> kwargs \<Rightarrow> state \<Rightarrow> ('x exn + 'r) \<times> state" where
  "helper lib (Get_request r params) kwargs s = get_request lib r params kwargs s"
| "helper lib (Delete_request r) kwargs s = delete_request lib r kwargs s"
| "helper lib (Post_request r data json) kwargs s = post_request lib r data json kwargs s"
| "helper lib (Put_request r data json) kwargs s = put_request lib r data json kwargs s"

text \<open>
  The call \<open>self.X_request(route, params=params, **kwargs)\<close> of an endpoint method passes
  the payload by keyword and binds the helper's parameters \<open>self\<close> and \<open>route\<close> by
  position: a key of \<open>kwargs\<close> with one of these names is a TypeError, and the helper is
  not entered.
\<close>

definition parameters :: "request \<Rightarrow> string list" where
  "parameters r = map fst (payload r) @ [''self'', ''route'']"

definition invoke ::
  "('x, 'r) requests \<Rightarrow> request \<Rightarrow> kwargs \<Rightarrow> state \<Rightarrow> ('x exn + 'r) \<times> state" where
  "invoke lib r kwargs s =
     (case duplicate (parameters r) kwargs of
        Some k \<Rightarrow> (Inl (TypeError k), s)
      | None \<Rightarrow> helper lib r kwargs s)"

section \<open>The endpoint methods of class Orthanc\<close>

text \<open>
  One definition per endpoint method of \<open>orthanc.py\<close>, in the order of the source: the
  helper it returns through, the route its f-string builds and the payload it passes on.
  Every one of them also passes its \<open>**kwargs\<close> on; \<open>invoke\<close> does that.
\<close>

definition get_attachments ::
  "orthanc \<Rightarrow> string \<Rightarrow> string \<Rightarrow> pyval \<Rightarrow> request" where
  "get_attachments self resource_type identifier params =
     Get_request
       (orthanc_url self @ ''/'' @ resource_type @ ''/'' @ identifier @ ''/attachments'')
       params"

definition get_attachment_by_name ::
  "orthanc \<Rightarrow> string \<Rightarrow> string \<Rightarrow> string \<Rightarrow> pyval \<Rightarrow> request" where
  "get_attachment_by_name self resource_type identifier name params =
     Get_request
       (orthanc_url self @ ''/'' @ resource_type @ ''/'' @ identifier @ ''/attachments/''
          @ name)
       params"

definition delete_attachment_by_name ::
  "orthanc \<Rightarrow> string \<Rightarrow> string \<Rightarrow> string \<Rightarrow> request" where
  "delete_attachment_by_name self resource_type identifier name =
     Delete_request
       (orthanc_url self @ ''/'' @ resource_type @ ''/'' @ identifier @ ''/attachments/''
          @ name)"

definition put_attachment_by_name ::
  "orthanc \<Rightarrow> string \<Rightarrow> string \<Rightarrow> string \<Rightarrow> pyval \<Rightarrow> pyval \<Rightarrow> request" where
  "put_attachment_by_name self resource_type identifier name data json =
     Put_request
       (orthanc_url self @ ''/'' @ resource_type @ ''/'' @ identifier @ ''/attachments/''
          @ name)
       data json"

definition post_compress_attachment ::
  "orthanc \<Rightarrow> string \<Rightarrow> string \<Rightarrow> string \<Rightarrow> pyval \<Rightarrow> pyval \<Rightarrow> request" where
  "post_compress_attachment self resource_type identifier name data json =
     Post_request
       (orthanc_url self @ ''/'' @ resource_type @ ''/'' @ identifier @ ''/attachments/''
          @ name @ ''/compress'')
       data json"

definition get_attachment_compressed_data ::
  "orthanc \<Rightarrow> string \<Rightarrow> string \<Rightarrow> string \<Rightarrow> pyval \<Rightarrow> request" where
  "get_attachment_compressed_data self resource_type identifier name params =
     Get_request
       (orthanc_url self @ ''/'' @ resource_type @ ''/'' @ identifier @ ''/attachments/''
          @ name @ ''/compressed_data'')
       params"

definition get_attachment_compressed_data_md5 ::
  "orthanc \<Rightarrow> string \<Rightarrow> string \<Rightarrow> string \<Rightarrow> pyval \<Rightarrow> request" where
  "get_attachment_compressed_data_md5 self resource_type identifier name params =
     Get_request
       (orthanc_url self @ ''/'' @ resource_type @ ''/'' @ identifier @ ''/attachments/''
          @ name @ ''/compressed_md5'')
       params"

definition get_attachment_compressed_size ::
  "orthanc \<Rightarrow> string \<Rightarrow> string \<Rightarrow> string \<Rightarrow> pyval \<Rightarrow> request" where
  "get_attachment_compressed_size self resource_type identifier name params =
     Get_request
       (orthanc_url self @ ''/'' @ resource_type @ ''/'' @ identifier @ ''/attachments/''
          @ name @ ''/compressed_size'')
       params"

definition get_attachment_data ::
  "orthanc \<Rightarrow> string \<Rightarrow> string \<Rightarrow> string \<Rightarrow> pyval \<Rightarrow> request" where
  "get_attachment_data self resource_type identifier name params =
     Get_request
       (orthanc_url self @ ''/'' @ resource_type @ ''/'' @ identifier @ ''/attachments/''
          @ name @ ''/data'')
       params"

definition get_if_attachment_compressed ::
  "orthanc \<Rightarrow> string \<Rightarrow> string \<Rightarrow> string \<Rightarrow> pyval \<Rightarrow> request" where
  "get_if_attachment_compressed self resource_type identifier name params =
     Get_request
       (orthanc_url self @ ''/'' @ resource_type @ ''/'' @ identifier @ ''/attachments/''
          @ name @ ''/is_compressed'')
       params"

definition get_attachments_name_md5 ::
  "orthanc \<Rightarrow> string \<Rightarrow> string \<Rightarrow> string \<Rightarrow> pyval \<Rightarrow> request" where
  "get_attachments_name_md5 self resource_type identifier name params =
     Get_request
       (orthanc_url self @ ''/'' @ resource_type @ ''/'' @ identifier @ ''/attachments/''
          @ name @ ''/md5'')
       params"

definition get_resource_type_identifier_attachments_name_size ::
  "orthanc \<Rightarrow> string \<Rightarrow> string \<Rightarrow> string \<Rightarrow> pyval \<Rightarrow> request" where
  "get_resource_type_identifier_attachments_name_size self resource_type identifier name params =
     Get_request
       (orthanc_url self @ ''/'' @ resource_type @ ''/'' @ identifier @ ''/attachments/''
          @ name @ ''/size'')
       params"

definition post_resource_type_identifier_attachments_name_uncompress ::
  "orthanc \<Rightarrow> string \<Rightarrow> string \<Rightarrow> string \<Rightarrow> pyval \<Rightarrow> pyval \<Rightarrow> request" where
  "post_resource_type_identifier_attachments_name_uncompress self resource_type identifier name data json =
     Post_request
       (orthanc_url self @ ''/'' @ resource_type @ ''/'' @ identifier @ ''/attachments/''
          @ name @ ''/uncompress'')
       data json"

definition post_resource_type_identifier_attachments_name_verify_md5 ::
  "orthanc \<Rightarrow> string \<Rightarrow> string \<Rightarrow> string \<Rightarrow> pyval \<Rightarrow> pyval \<Rightarrow> request" where
  "post_resource_type_identifier_attachments_name_verify_md5 self resource_type identifier name data json =
     Post_request
       (orthanc_url self @ ''/'' @ resource_type @ ''/'' @ identifier @ ''/attachments/''
          @ name @ ''/verify_md5'')
       data json"

definition get_resource_type_identifier_metadata ::
  "orthanc \<Rightarrow> string \<Rightarrow> string \<Rightarrow> pyval \<Rightarrow> request" where
  "get_resource_type_identifier_metadata self resource_type identifier params =
     Get_request
       (orthanc_url self @ ''/'' @ resource_type @ ''/'' @ identifier @ ''/metadata'')
       params"

definition get_resource_type_identifier_metadata_name ::
  "orthanc \<Rightarrow> string \<Rightarrow> string \<Rightarrow> string \<Rightarrow> pyval \<Rightarrow> request" where
  "get_resource_type_identifier_metadata_name self resource_type identifier name params =
     Get_request
       (orthanc_url self @ ''/'' @ resource_type @ ''/'' @ identifier @ ''/metadata/''
          @ name)
       params"

definition delete_resource_type_identifier_metadata_name ::
  "orthanc \<Rightarrow> string \<Rightarrow> string \<Rightarrow> string \<Rightarrow> request" where
  "delete_resource_type_identifier_metadata_name self resource_type identifier name =
     Delete_request
       (orthanc_url self @ ''/'' @ resource_type @ ''/'' @ identifier @ ''/metadata/''
          @ name)"

definition put_resource_type_identifier_metadata_name ::
  "orthanc \<Rightarrow> string \<Rightarrow> string \<Rightarrow> string \<Rightarrow> pyval \<Rightarrow> pyval \<Rightarrow> request" where
  "put_resource_type_identifier_metadata_name self resource_type identifier name data json =
     Put_request
       (orthanc_url self @ ''/'' @ resource_type @ ''/'' @ identifier @ ''/metadata/''
          @ name)
       data json"

definition get_changes ::
  "orthanc \<Rightarrow> pyval \<Rightarrow> request" where
  "get_changes self params =
     Get_request (orthanc_url self @ ''/changes'') params"

definition delete_changes ::
  "orthanc \<Rightarrow> request" where
  "delete_changes self =
     Delete_request (orthanc_url self @ ''/changes'')"

definition get_exports ::
  "orthanc \<Rightarrow> pyval \<Rightarrow> request" where
  "get_exports self params =
     Get_request (orthanc_url self @ ''/exports'') params"

definition delete_exports ::
  "orthanc \<Rightarrow> request" where
  "delete_exports self =
     Delete_request (orthanc_url self @ ''/exports'')"

definition get_instances ::
  "orthanc \<Rightarrow> pyval \<Rightarrow> request" where
  "get_instances self params =
     Get_request (orthanc_url self @ ''/instances'') params"

definition post_instances ::
  "orthanc \<Rightarrow> pyval \<Rightarrow> pyval \<Rightarrow> request" where
  "post_instances self data json =
     Post_request (orthanc_url self @ ''/instances'') data json"

definition get_instances_identifier ::
  "orthanc \<Rightarrow> string \<Rightarrow> pyval \<Rightarrow> request" where
  "get_instances_identifier self identifier params =
     Get_request (orthanc_url self @ ''/instances/'' @ identifier) params"

definition delete_instances_identifier ::
  "orthanc \<Rightarrow> string \<Rightarrow> request" where
  "delete_instances_identifier self identifier =
     Delete_request (orthanc_url self @ ''/instances/'' @ identifier)"

definition post_instances_identifier_anonymize ::
  "orthanc \<Rightarrow> string \<Rightarrow> pyval \<Rightarrow> pyval \<Rightarrow> request" where
  "post_instances_identifier_anonymize self identifier data json =
     Post_request (orthanc_url self @ ''/instances/'' @ identifier @ ''/anonymize'') data json"

definition get_instances_identifier_content ::
  "orthanc \<Rightarrow> string \<Rightarrow> pyval \<Rightarrow> request" where
  "get_instances_identifier_content self identifier params =
     Get_request (orthanc_url self @ ''/instances/'' @ identifier @ ''/content/'') params"

definition get_instances_identifier_content_group_element ::
  "orthanc \<Rightarrow> string \<Rightarrow> string \<Rightarrow> pyval \<Rightarrow> request" where
  "get_instances_identifier_content_group_element self identifier group_element params =
     Get_request
       (orthanc_url self @ ''/instances/'' @ identifier @ ''/content/'' @ group_element)
       params"

definition get_instances_identifier_content_group_element_index ::
  "orthanc \<Rightarrow> string \<Rightarrow> string \<Rightarrow> string \<Rightarrow> pyval \<Rightarrow> request" where
  "get_instances_identifier_content_group_element_index self identifier group_element index params =
     Get_request
       (orthanc_url self @ ''/instances/'' @ identifier @ ''/content/'' @ group_element
          @ ''/'' @ index @ ''/...'')
       params"

definition post_instances_identifier_export ::
  "orthanc \<Rightarrow> string \<Rightarrow> pyval \<Rightarrow> pyval \<Rightarrow> request" where
  "post_instances_identifier_export self identifier data json =
     Post_request (orthanc_url self @ ''/instances/'' @ identifier @ ''/export'') data json"

definition get_instances_identifier_file ::
  "orthanc \<Rightarrow> string \<Rightarrow> pyval \<Rightarrow> request" where
  "get_instances_identifier_file self identifier params =
     Get_request (orthanc_url self @ ''/instances/'' @ identifier @ ''/file'') params"

definition get_instances_identifier_frames ::
  "orthanc \<Rightarrow> string \<Rightarrow> pyval \<Rightarrow> request" where
  "get_instances_identifier_frames self identifier params =
     Get_request (orthanc_url self @ ''/instances/'' @ identifier @ ''/frames'') params"

definition get_instances_identifier_frames_frameNumber_image_int16 ::
  "orthanc \<Rightarrow> string \<Rightarrow> string \<Rightarrow> pyval \<Rightarrow> request" where
  "get_instances_identifier_frames_frameNumber_image_int16 self identifier frameNumber params =
     Get_request
       (orthanc_url self @ ''/instances/'' @ identifier @ ''/frames/'' @ frameNumber
          @ ''/image_int16'')
       params"

definition get_instances_identifier_frames_frameNumber_image_uint16 ::
  "orthanc \<Rightarrow> string \<Rightarrow> string \<Rightarrow> pyval \<Rightarrow> request" where
  "get_instances_identifier_frames_frameNumber_image_uint16 self identifier frameNumber params =
     Get_request
       (orthanc_url self @ ''/instances/'' @ identifier @ ''/frames/'' @ frameNumber
          @ ''/image_uint16'')
       params"

definition get_instances_identifier_frames_frameNumber_image_uint8 ::
  "orthanc \<Rightarrow> string \<Rightarrow> string \<Rightarrow> pyval \<Rightarrow> request" where
  "get_instances_identifier_frames_frameNumber_image_uint8 self identifier frameNumber params =
     Get_request
       (orthanc_url self @ ''/instances/'' @ identifier @ ''/frames/'' @ frameNumber
          @ ''/image_uint8'')
       params"

definition get_instances_identifier_frames_frameNumber_matlab ::
  "orthanc \<Rightarrow> string \<Rightarrow> string \<Rightarrow> pyval \<Rightarrow> request" where
  "get_instances_identifier_frames_frameNumber_matlab self identifier frameNumber params =
     Get_request
       (orthanc_url self @ ''/instances/'' @ identifier @ ''/frames/'' @ frameNumber
          @ ''/matlab'')
       params"

definition get_instances_identifier_frames_frameNumber_preview ::
  "orthanc \<Rightarrow> string \<Rightarrow> string \<Rightarrow> pyval \<Rightarrow> request" where
  "get_instances_identifier_frames_frameNumber_preview self identifier frameNumber params =
     Get_request
       (orthanc_url self @ ''/instances/'' @ identifier @ ''/frames/'' @ frameNumber
          @ ''/preview'')
       params"

definition get_instances_identifier_frames_frameNumber_raw ::
  "orthanc \<Rightarrow> string \<Rightarrow> string \<Rightarrow> pyval \<Rightarrow> request" where
  "get_instances_identifier_frames_frameNumber_raw self identifier frameNumber params =
     Get_request
       (orthanc_url self @ ''/instances/'' @ identifier @ ''/frames/'' @ frameNumber
          @ ''/raw'')
       params"

definition get_instances_identifier_frames_frameNumber_raw_gz ::
  "orthanc \<Rightarrow> string \<Rightarrow> string \<Rightarrow> pyval \<Rightarrow> request" where
  "get_instances_identifier_frames_frameNumber_raw_gz self identifier frameNumber params =
     Get_request
       (orthanc_url self @ ''/instances/'' @ identifier @ ''/frames/'' @ frameNumber
          @ ''/raw.gz'')
       params"

definition get_instances_identifier_header ::
  "orthanc \<Rightarrow> string \<Rightarrow> pyval \<Rightarrow> request" where
  "get_instances_identifier_header self identifier params =
     Get_request (orthanc_url self @ ''/instances/'' @ identifier @ ''/header'') params"

definition get_instances_identifier_image_int16 ::
  "orthanc \<Rightarrow> string \<Rightarrow> pyval \<Rightarrow> request" where
  "get_instances_identifier_image_int16 self identifier params =
     Get_request (orthanc_url self @ ''/instances/'' @ identifier @ ''/image_int16'') params"

definition get_instances_identifier_image_uint16 ::
  "orthanc \<Rightarrow> string \<Rightarrow> pyval \<Rightarrow> request" where
  "get_instances_identifier_image_uint16 self identifier params =
     Get_request (orthanc_url self @ ''/instances/'' @ identifier @ ''/image_uint16'') params"

definition get_instances_identifier_image_uint8 ::
  "orthanc \<Rightarrow> string \<Rightarrow> pyval \<Rightarrow> request" where
  "get_instances_identifier_image_uint8 self identifier params =
     Get_request (orthanc_url self @ ''/instances/'' @ identifier @ ''/image_uint8'') params"

definition get_instances_identifier_matlab ::
  "orthanc \<Rightarrow> string \<Rightarrow> pyval \<Rightarrow> request" where
  "get_instances_identifier_matlab self identifier params =
     Get_request (orthanc_url self @ ''/instances/'' @ identifier @ ''/matlab'') params"

definition post_instances_identifier_modify ::
  "orthanc \<Rightarrow> string \<Rightarrow> pyval \<Rightarrow> pyval \<Rightarrow> request" where
  "post_instances_identifier_modify self identifier data json =
     Post_request (orthanc_url self @ ''/instances/'' @ identifier @ ''/modify'') data json"

definition get_instances_identifier_module ::
  "orthanc \<Rightarrow> string \<Rightarrow> pyval \<Rightarrow> request" where
  "get_instances_identifier_module self identifier params =
     Get_request (orthanc_url self @ ''/instances/'' @ identifier @ ''/module'') params"

definition get_instances_identifier_patient ::
  "orthanc \<Rightarrow> string \<Rightarrow> pyval \<Rightarrow> request" where
  "get_instances_identifier_patient self identifier params =
     Get_request (orthanc_url self @ ''/instances/'' @ identifier @ ''/patient'') params"

definition get_instances_identifier_pdf ::
  "orthanc \<Rightarrow> string \<Rightarrow> pyval \<Rightarrow> request" where
  "get_instances_identifier_pdf self identifier params =
     Get_request (orthanc_url self @ ''/instances/'' @ identifier @ ''/pdf'') params"

definition get_instances_identifier_preview ::
  "orthanc \<Rightarrow> string \<Rightarrow> pyval \<Rightarrow> request" where
  "get_instances_identifier_preview self identifier params =
     Get_request (orthanc_url self @ ''/instances/'' @ identifier @ ''/preview'') params"

definition post_instances_identifier_reconstruct ::
  "orthanc \<Rightarrow> string \<Rightarrow> pyval \<Rightarrow> pyval \<Rightarrow> request" where
  "post_instances_identifier_reconstruct self identifier data json =
     Post_request (orthanc_url self @ ''/instances/'' @ identifier @ ''/reconstruct'') data json"

definition get_instances_identifier_series ::
  "orthanc \<Rightarrow> string \<Rightarrow> pyval \<Rightarrow> request" where
  "get_instances_identifier_series self identifier params =
     Get_request (orthanc_url self @ ''/instances/'' @ identifier @ ''/series'') params"

definition get_instances_identifier_simplified_tags ::
  "orthanc \<Rightarrow> string \<Rightarrow> pyval \<Rightarrow> request" where
  "get_instances_identifier_simplified_tags self identifier params =
     Get_request (orthanc_url self @ ''/instances/'' @ identifier @ ''/simplified_tags'') params"

definition get_instances_identifier_statistics ::
  "orthanc \<Rightarrow> string \<Rightarrow> pyval \<Rightarrow> request" where
  "get_instances_identifier_statistics self identifier params =
     Get_request (orthanc_url self @ ''/instances/'' @ identifier @ ''/statistics'') params"

definition get_instances_identifier_study ::
  "orthanc \<Rightarrow> string \<Rightarrow> pyval \<Rightarrow> request" where
  "get_instances_identifier_study self identifier params =
     Get_request (orthanc_url self @ ''/instances/'' @ identifier @ ''/study'') params"

definition get_instances_identifier_tags ::
  "orthanc \<Rightarrow> string \<Rightarrow> pyval \<Rightarrow> request" where
  "get_instances_identifier_tags self identifier params =
     Get_request (orthanc_url self @ ''/instances/'' @ identifier @ ''/tags'') params"

definition get_jobs ::
  "orthanc \<Rightarrow> pyval \<Rightarrow> request" where
  "get_jobs self params =
     Get_request (orthanc_url self @ ''/jobs'') params"

definition get_jobs_identifier ::
  "orthanc \<Rightarrow> string \<Rightarrow> pyval \<Rightarrow> request" where
  "get_jobs_identifier self identifier params =
     Get_request (orthanc_url self @ ''/jobs/'' @ identifier) params"

definition post_jobs_identifier_cancel ::
  "orthanc \<Rightarrow> string \<Rightarrow> pyval \<Rightarrow> pyval \<Rightarrow> request" where
  "post_jobs_identifier_cancel self identifier data json =
     Post_request (orthanc_url self @ ''/jobs/'' @ identifier @ ''/cancel'') data json"

definition post_jobs_identifier_pause ::
  "orthanc \<Rightarrow> string \<Rightarrow> pyval \<Rightarrow> pyval \<Rightarrow> request" where
  "post_jobs_identifier_pause self identifier data json =
     Post_request (orthanc_url self @ ''/jobs/'' @ identifier @ ''/pause'') data json"

definition post_jobs_identifier_resubmit ::
  "orthanc \<Rightarrow> string \<Rightarrow> pyval \<Rightarrow> pyval \<Rightarrow> request" where
  "post_jobs_identifier_resubmit self identifier data json =
     Post_request (orthanc_url self @ ''/jobs/'' @ identifier @ ''/resubmit'') data json"

definition post_jobs_identifier_resume ::
  "orthanc \<Rightarrow> string \<Rightarrow> pyval \<Rightarrow> pyval \<Rightarrow> request" where
  "post_jobs_identifier_resume self identifier data json =
     Post_request (orthanc_url self @ ''/jobs/'' @ identifier @ ''/resume'') data json"

definition get_jobs_identifier_key ::
  "orthanc \<Rightarrow> string \<Rightarrow> string \<Rightarrow> pyval \<Rightarrow> request" where
  "get_jobs_identifier_key self identifier key params =
     Get_request (orthanc_url self @ ''/jobs/'' @ identifier @ ''/'' @ key) params"

definition get_modalities ::
  "orthanc \<Rightarrow> pyval \<Rightarrow> request" where
  "get_modalities self params =
     Get_request (orthanc_url self @ ''/modalities'') params"

definition get_modalities_dicom ::
  "orthanc \<Rightarrow> string \<Rightarrow> pyval \<Rightarrow> request" where
  "get_modalities_dicom self dicom params =
     Get_request (orthanc_url self @ ''/modalities/'' @ dicom) params"

definition delete_modalities_dicom ::
  "orthanc \<Rightarrow> string \<Rightarrow> request" where
  "delete_modalities_dicom self dicom =
     Delete_request (orthanc_url self @ ''/modalities/'' @ dicom)"

definition put_modalities_dicom ::
  "orthanc \<Rightarrow> string \<Rightarrow> pyval \<Rightarrow> pyval \<Rightarrow> request" where
  "put_modalities_dicom self dicom data json =
     Put_request (orthanc_url self @ ''/modalities/'' @ dicom) data json"

definition post_modalities_dicom_echo ::
  "orthanc \<Rightarrow> string \<Rightarrow> pyval \<Rightarrow> pyval \<Rightarrow> request" where
  "post_modalities_dicom_echo self dicom data json =
     Post_request (orthanc_url self @ ''/modalities/'' @ dicom @ ''/echo'') data json"

definition post_modalities_dicom_move ::
  "orthanc \<Rightarrow> string \<Rightarrow> pyval \<Rightarrow> pyval \<Rightarrow> request" where
  "post_modalities_dicom_move self dicom data json =
     Post_request (orthanc_url self @ ''/modalities/'' @ dicom @ ''/move'') data json"

definition post_modalities_dicom_query ::
  "orthanc \<Rightarrow> string \<Rightarrow> pyval \<Rightarrow> pyval \<Rightarrow> request" where
  "post_modalities_dicom_query self dicom data json =
     Post_request (orthanc_url self @ ''/modalities/'' @ dicom @ ''/query'') data json"

definition post_modalities_dicom_store ::
  "orthanc \<Rightarrow> string \<Rightarrow> pyval \<Rightarrow> pyval \<Rightarrow> request" where
  "post_modalities_dicom_store self dicom data json =
     Post_request (orthanc_url self @ ''/modalities/'' @ dicom @ ''/store'') data json"

definition get_patients ::
  "orthanc \<Rightarrow> pyval \<Rightarrow> request" where
  "get_patients self params =
     Get_request (orthanc_url self @ ''/patients'') params"

definition get_patients_identifier ::
  "orthanc \<Rightarrow> string \<Rightarrow> pyval \<Rightarrow> request" where
  "get_patients_identifier self identifier params =
     Get_request (orthanc_url self @ ''/patients/'' @ identifier) params"

definition delete_patients_identifier ::
  "orthanc \<Rightarrow> string \<Rightarrow> request" where
  "delete_patients_identifier self identifier =
     Delete_request (orthanc_url self @ ''/patients/'' @ identifier)"

definition post_patients_identifier_anonymize ::
  "orthanc \<Rightarrow> string \<Rightarrow> pyval \<Rightarrow> pyval \<Rightarrow> request" where
  "post_patients_identifier_anonymize self identifier data json =
     Post_request (orthanc_url self @ ''/patients/'' @ identifier @ ''/anonymize'') data json"

definition get_patients_identifier_archive ::
  "orthanc \<Rightarrow> string \<Rightarrow> pyval \<Rightarrow> request" where
  "get_patients_identifier_archive self identifier params =
     Get_request (orthanc_url self @ ''/patients/'' @ identifier @ ''/archive'') params"

definition post_patients_identifier_archive ::
  "orthanc \<Rightarrow> string \<Rightarrow> pyval \<Rightarrow> pyval \<Rightarrow> request" where
  "post_patients_identifier_archive self identifier data json =
     Post_request (orthanc_url self @ ''/patients/'' @ identifier @ ''/archive'') data json"

definition get_patients_identifier_instances ::
  "orthanc \<Rightarrow> string \<Rightarrow> pyval \<Rightarrow> request" where
  "get_patients_identifier_instances self identifier params =
     Get_request (orthanc_url self @ ''/patients/'' @ identifier @ ''/instances'') params"

definition get_patients_identifier_instances_tags ::
  "orthanc \<Rightarrow> string \<Rightarrow> pyval \<Rightarrow> request" where
  "get_patients_identifier_instances_tags self identifier params =
     Get_request (orthanc_url self @ ''/patients/'' @ identifier @ ''/instances_tags'') params"

definition get_patients_identifier_media ::
  "orthanc \<Rightarrow> string \<Rightarrow> pyval \<Rightarrow> request" where
  "get_patients_identifier_media self identifier params =
     Get_request (orthanc_url self @ ''/patients/'' @ identifier @ ''/media'') params"

definition post_patients_identifier_media ::
  "orthanc \<Rightarrow> string \<Rightarrow> pyval \<Rightarrow> pyval \<Rightarrow> request" where
  "post_patients_identifier_media self identifier data json =
     Post_request (orthanc_url self @ ''/patients/'' @ identifier @ ''/media'') data json"

definition post_patients_identifier_modify ::
  "orthanc \<Rightarrow> string \<Rightarrow> pyval \<Rightarrow> pyval \<Rightarrow> request" where
  "post_patients_identifier_modify self identifier data json =
     Post_request (orthanc_url self @ ''/patients/'' @ identifier @ ''/modify'') data json"

definition get_patients_identifier_module ::
  "orthanc \<Rightarrow> string \<Rightarrow> pyval \<Rightarrow> request" where
  "get_patients_identifier_module self identifier params =
     Get_request (orthanc_url self @ ''/patients/'' @ identifier @ ''/module'') params"

definition get_patients_identifier_protected ::
  "orthanc \<Rightarrow> string \<Rightarrow> pyval \<Rightarrow> request" where
  "get_patients_identifier_protected self identifier params =
     Get_request (orthanc_url self @ ''/patients/'' @ identifier @ ''/protected'') params"

definition put_patients_identifier_protected ::
  "orthanc \<Rightarrow> string \<Rightarrow> pyval \<Rightarrow> pyval \<Rightarrow> request" where
  "put_patients_identifier_protected self identifier data json =
     Put_request (orthanc_url self @ ''/patients/'' @ identifier @ ''/protected'') data json"

definition post_patients_identifier_reconstruct ::
  "orthanc \<Rightarrow> string \<Rightarrow> pyval \<Rightarrow> pyval \<Rightarrow> request" where
  "post_patients_identifier_reconstruct self identifier data json =
     Post_request (orthanc_url self @ ''/patients/'' @ identifier @ ''/reconstruct'') data json"

definition get_patients_identifier_series ::
  "orthanc \<Rightarrow> string \<Rightarrow> pyval \<Rightarrow> request" where
  "get_patients_identifier_series self identifier params =
     Get_request (orthanc_url self @ ''/patients/'' @ identifier @ ''/series'') params"

definition get_patients_identifier_shared_tags ::
  "orthanc \<Rightarrow> string \<Rightarrow> pyval \<Rightarrow> request" where
  "get_patients_identifier_shared_tags self identifier params =
     Get_request (orthanc_url self @ ''/patients/'' @ identifier @ ''/shared_tags'') params"

definition get_patients_identifier_statistics ::
  "orthanc \<Rightarrow> string \<Rightarrow> pyval \<Rightarrow> request" where
  "get_patients_identifier_statistics self identifier params =
     Get_request (orthanc_url self @ ''/patients/'' @ identifier @ ''/statistics'') params"

definition get_patients_identifier_studies ::
  "orthanc \<Rightarrow> string \<Rightarrow> pyval \<Rightarrow> request" where
  "get_patients_identifier_studies self identifier params =
     Get_request (orthanc_url self @ ''/patients/'' @ identifier @ ''/studies'') params"

definition get_peers ::
  "orthanc \<Rightarrow> pyval \<Rightarrow> request" where
  "get_peers self params =
     Get_request (orthanc_url self @ ''/peers'') params"

definition get_peers_peer ::
  "orthanc \<Rightarrow> string \<Rightarrow> pyval \<Rightarrow> request" where
  "get_peers_peer self peer params =
     Get_request (orthanc_url self @ ''/peers/'' @ peer) params"

definition delete_peers_peer ::
  "orthanc \<Rightarrow> string \<Rightarrow> request" where
  "delete_peers_peer self peer =
     Delete_request (orthanc_url self @ ''/peers/'' @ peer)"

definition put_peers_peer ::
  "orthanc \<Rightarrow> string \<Rightarrow> pyval \<Rightarrow> pyval \<Rightarrow> request" where
  "put_peers_peer self peer data json =
     Put_request (orthanc_url self @ ''/peers/'' @ peer) data json"

definition post_peers_peer_store ::
  "orthanc \<Rightarrow> string \<Rightarrow> pyval \<Rightarrow> pyval \<Rightarrow> request" where
  "post_peers_peer_store self peer data json =
     Post_request (orthanc_url self @ ''/peers/'' @ peer @ ''/store'') data json"

definition get_plugins ::
  "orthanc \<Rightarrow> pyval \<Rightarrow> request" where
  "get_plugins self params =
     Get_request (orthanc_url self @ ''/plugins'') params"

definition get_plugins_identifier ::
  "orthanc \<Rightarrow> string \<Rightarrow> pyval \<Rightarrow> request" where
  "get_plugins_identifier self identifier params =
     Get_request (orthanc_url self @ ''/plugins/'' @ identifier) params"

definition get_plugins_explorer_js ::
  "orthanc \<Rightarrow> pyval \<Rightarrow> request" where
  "get_plugins_explorer_js self params =
     Get_request (orthanc_url self @ ''/plugins/explorer.js'') params"

definition get_queries ::
  "orthanc \<Rightarrow> pyval \<Rightarrow> request" where
  "get_queries self params =
     Get_request (orthanc_url self @ ''/queries'') params"

definition get_queries_identifier ::
  "orthanc \<Rightarrow> string \<Rightarrow> pyval \<Rightarrow> request" where
  "get_queries_identifier self identifier params =
     Get_request (orthanc_url self @ ''/queries/'' @ identifier) params"

definition delete_queries_identifier ::
  "orthanc \<Rightarrow> string \<Rightarrow> request" where
  "delete_queries_identifier self identifier =
     Delete_request (orthanc_url self @ ''/queries/'' @ identifier)"

definition get_queries_identifier_answers ::
  "orthanc \<Rightarrow> string \<Rightarrow> pyval \<Rightarrow> request" where
  "get_queries_identifier_answers self identifier params =
     Get_request (orthanc_url self @ ''/queries/'' @ identifier @ ''/answers'') params"

definition get_queries_identifier_answers_index_content ::
  "orthanc \<Rightarrow> string \<Rightarrow> string \<Rightarrow> pyval \<Rightarrow> request" where
  "get_queries_identifier_answers_index_content self identifier index params =
     Get_request
       (orthanc_url self @ ''/queries/'' @ identifier @ ''/answers/'' @ index @ ''/content'')
       params"

definition post_queries_identifier_answers_index_retrieve ::
  "orthanc \<Rightarrow> string \<Rightarrow> string \<Rightarrow> pyval \<Rightarrow> pyval \<Rightarrow> request" where
  "post_queries_identifier_answers_index_retrieve self identifier index data json =
     Post_request
       (orthanc_url self @ ''/queries/'' @ identifier @ ''/answers/'' @ index
          @ ''/retrieve'')
       data json"

definition post_queries_identifier_answers_index_query_instances ::
  "orthanc \<Rightarrow> string \<Rightarrow> string \<Rightarrow> pyval \<Rightarrow> pyval \<Rightarrow> request" where
  "post_queries_identifier_answers_index_query_instances self identifier index data json =
     Post_request
       (orthanc_url self @ ''/queries/'' @ identifier @ ''/answers/'' @ index
          @ ''/query_instances'')
       data json"

definition post_queries_identifier_answers_index_query_series ::
  "orthanc \<Rightarrow> string \<Rightarrow> string \<Rightarrow> pyval \<Rightarrow> pyval \<Rightarrow> request" where
  "post_queries_identifier_answers_index_query_series self identifier index data json =
     Post_request
       (orthanc_url self @ ''/queries/'' @ identifier @ ''/answers/'' @ index
          @ ''/query_series'')
       data json"

definition post_queries_identifier_answers_index_query_studies ::
  "orthanc \<Rightarrow> string \<Rightarrow> string \<Rightarrow> pyval \<Rightarrow> pyval \<Rightarrow> request" where
  "post_queries_identifier_answers_index_query_studies self identifier index data json =
     Post_request
       (orthanc_url self @ ''/queries/'' @ identifier @ ''/answers/'' @ index
          @ ''/query_studies'')
       data json"

definition get_queries_identifier_level ::
  "orthanc \<Rightarrow> string \<Rightarrow> pyval \<Rightarrow> request" where
  "get_queries_identifier_level self identifier params =
     Get_request (orthanc_url self @ ''/queries/'' @ identifier @ ''/level'') params"

definition get_queries_identifier_modality ::
  "orthanc \<Rightarrow> string \<Rightarrow> pyval \<Rightarrow> request" where
  "get_queries_identifier_modality self identifier params =
     Get_request (orthanc_url self @ ''/queries/'' @ identifier @ ''/modality'') params"

definition get_queries_identifier_query ::
  "orthanc \<Rightarrow> string \<Rightarrow> pyval \<Rightarrow> request" where
  "get_queries_identifier_query self identifier params =
     Get_request (orthanc_url self @ ''/queries/'' @ identifier @ ''/query'') params"

definition post_queries_identifier_retrieve ::
  "orthanc \<Rightarrow> string \<Rightarrow> pyval \<Rightarrow> pyval \<Rightarrow> request" where
  "post_queries_identifier_retrieve self identifier data json =
     Post_request (orthanc_url self @ ''/queries/'' @ identifier @ ''/retrieve'') data json"

definition get_series ::
  "orthanc \<Rightarrow> pyval \<Rightarrow> request" where
  "get_series self params =
     Get_request (orthanc_url self @ ''/series'') params"

definition get_series_identifier ::
  "orthanc \<Rightarrow> string \<Rightarrow> pyval \<Rightarrow> request" where
  "get_series_identifier self identifier params =
     Get_request (orthanc_url self @ ''/series/'' @ identifier) params"

definition delete_series_identifier ::
  "orthanc \<Rightarrow> string \<Rightarrow> request" where
  "delete_series_identifier self identifier =
     Delete_request (orthanc_url self @ ''/series/'' @ identifier)"

definition post_series_identifier_anonymize ::
  "orthanc \<Rightarrow> string \<Rightarrow> pyval \<Rightarrow> pyval \<Rightarrow> request" where
  "post_series_identifier_anonymize self identifier data json =
     Post_request (orthanc_url self @ ''/series/'' @ identifier @ ''/anonymize'') data json"

definition get_series_identifier_archive ::
  "orthanc \<Rightarrow> string \<Rightarrow> pyval \<Rightarrow> request" where
  "get_series_identifier_archive self identifier params =
     Get_request (orthanc_url self @ ''/series/'' @ identifier @ ''/archive'') params"

definition post_series_identifier_archive ::
  "orthanc \<Rightarrow> string \<Rightarrow> pyval \<Rightarrow> pyval \<Rightarrow> request" where
  "post_series_identifier_archive self identifier data json =
     Post_request (orthanc_url self @ ''/series/'' @ identifier @ ''/archive'') data json"

definition get_series_identifier_instances ::
  "orthanc \<Rightarrow> string \<Rightarrow> pyval \<Rightarrow> request" where
  "get_series_identifier_instances self identifier params =
     Get_request (orthanc_url self @ ''/series/'' @ identifier @ ''/instances'') params"

definition get_series_identifier_instances_tags ::
  "orthanc \<Rightarrow> string \<Rightarrow> pyval \<Rightarrow> request" where
  "get_series_identifier_instances_tags self identifier params =
     Get_request (orthanc_url self @ ''/series/'' @ identifier @ ''/instances_tags'') params"

definition get_series_identifier_media ::
  "orthanc \<Rightarrow> string \<Rightarrow> pyval \<Rightarrow> request" where
  "get_series_identifier_media self identifier params =
     Get_request (orthanc_url self @ ''/series/'' @ identifier @ ''/media'') params"

definition post_series_identifier_media ::
  "orthanc \<Rightarrow> string \<Rightarrow> pyval \<Rightarrow> pyval \<Rightarrow> request" where
  "post_series_identifier_media self identifier data json =
     Post_request (orthanc_url self @ ''/series/'' @ identifier @ ''/media'') data json"

definition post_series_identifier_modify ::
  "orthanc \<Rightarrow> string \<Rightarrow> pyval \<Rightarrow> pyval \<Rightarrow> request" where
  "post_series_identifier_modify self identifier data json =
     Post_request (orthanc_url self @ ''/series/'' @ identifier @ ''/modify'') data json"

definition get_series_identifier_module ::
  "orthanc \<Rightarrow> string \<Rightarrow> pyval \<Rightarrow> request" where
  "get_series_identifier_module self identifier params =
     Get_request (orthanc_url self @ ''/series/'' @ identifier @ ''/module'') params"

definition get_series_identifier_ordered_slices ::
  "orthanc \<Rightarrow> string \<Rightarrow> pyval \<Rightarrow> request" where
  "get_series_identifier_ordered_slices self identifier params =
     Get_request (orthanc_url self @ ''/series/'' @ identifier @ ''/ordered_slices'') params"

definition get_series_identifier_patient ::
  "orthanc \<Rightarrow> string \<Rightarrow> pyval \<Rightarrow> request" where
  "get_series_identifier_patient self identifier params =
     Get_request (orthanc_url self @ ''/series/'' @ identifier @ ''/patient'') params"

definition post_series_identifier_reconstruct ::
  "orthanc \<Rightarrow> string \<Rightarrow> pyval \<Rightarrow> pyval \<Rightarrow> request" where
  "post_series_identifier_reconstruct self identifier data json =
     Post_request (orthanc_url self @ ''/series/'' @ identifier @ ''/reconstruct'') data json"

definition get_series_identifier_shared_tags ::
  "orthanc \<Rightarrow> string \<Rightarrow> pyval \<Rightarrow> request" where
  "get_series_identifier_shared_tags self identifier params =
     Get_request (orthanc_url self @ ''/series/'' @ identifier @ ''/shared_tags'') params"

definition get_series_identifier_statistics ::
  "orthanc \<Rightarrow> string \<Rightarrow> pyval \<Rightarrow> request" where
  "get_series_identifier_statistics self identifier params =
     Get_request (orthanc_url self @ ''/series/'' @ identifier @ ''/statistics'') params"

definition get_series_identifier_study ::
  "orthanc \<Rightarrow> string \<Rightarrow> pyval \<Rightarrow> request" where
  "get_series_identifier_study self identifier params =
     Get_request (orthanc_url self @ ''/series/'' @ identifier @ ''/study'') params"

definition get_statistics ::
  "orthanc \<Rightarrow> pyval \<Rightarrow> request" where
  "get_statistics self params =
     Get_request (orthanc_url self @ ''/statistics'') params"

definition get_studies ::
  "orthanc \<Rightarrow> pyval \<Rightarrow> request" where
  "get_studies self params =
     Get_request (orthanc_url self @ ''/studies'') params"

definition get_studies_identifier ::
  "orthanc \<Rightarrow> string \<Rightarrow> pyval \<Rightarrow> request" where
  "get_studies_identifier self identifier params =
     Get_request (orthanc_url self @ ''/studies/'' @ identifier) params"

definition delete_studies_identifier ::
  "orthanc \<Rightarrow> string \<Rightarrow> request" where
  "delete_studies_identifier self identifier =
     Delete_request (orthanc_url self @ ''/studies/'' @ identifier)"

definition post_studies_identifier_anonymize ::
  "orthanc \<Rightarrow> string \<Rightarrow> pyval \<Rightarrow> pyval \<Rightarrow> request" where
  "post_studies_identifier_anonymize self identifier data json =
     Post_request (orthanc_url self @ ''/studies/'' @ identifier @ ''/anonymize'') data json"

definition get_studies_identifier_archive ::
  "orthanc \<Rightarrow> string \<Rightarrow> pyval \<Rightarrow> request" where
  "get_studies_identifier_archive self identifier params =
     Get_request (orthanc_url self @ ''/studies/'' @ identifier @ ''/archive'') params"

definition post_studies_identifier_archive ::
  "orthanc \<Rightarrow> string \<Rightarrow> pyval \<Rightarrow> pyval \<Rightarrow> request" where
  "post_studies_identifier_archive self identifier data json =
     Post_request (orthanc_url self @ ''/studies/'' @ identifier @ ''/archive'') data json"

definition get_studies_identifier_instances ::
  "orthanc \<Rightarrow> string \<Rightarrow> pyval \<Rightarrow> request" where
  "get_studies_identifier_instances self identifier params =
     Get_request (orthanc_url self @ ''/studies/'' @ identifier @ ''/instances'') params"

definition get_studies_identifier_instances_tags ::
  "orthanc \<Rightarrow> string \<Rightarrow> pyval \<Rightarrow> request" where
  "get_studies_identifier_instances_tags self identifier params =
     Get_request (orthanc_url self @ ''/studies/'' @ identifier @ ''/instances_tags'') params"

definition get_studies_identifier_media ::
  "orthanc \<Rightarrow> string \<Rightarrow> pyval \<Rightarrow> request" where
  "get_studies_identifier_media self identifier params =
     Get_request (orthanc_url self @ ''/studies/'' @ identifier @ ''/media'') params"

definition post_studies_identifier_media ::
  "orthanc \<Rightarrow> string \<Rightarrow> pyval \<Rightarrow> pyval \<Rightarrow> request" where
  "post_studies_identifier_media self identifier data json =
     Post_request (orthanc_url self @ ''/studies/'' @ identifier @ ''/media'') data json"

definition post_studies_identifier_merge ::
  "orthanc \<Rightarrow> string \<Rightarrow> pyval \<Rightarrow> pyval \<Rightarrow> request" where
  "post_studies_identifier_merge self identifier data json =
     Post_request (orthanc_url self @ ''/studies/'' @ identifier @ ''/merge'') data json"

definition post_studies_identifier_modify ::
  "orthanc \<Rightarrow> string \<Rightarrow> pyval \<Rightarrow> pyval \<Rightarrow> request" where
  "post_studies_identifier_modify self identifier data json =
     Post_request (orthanc_url self @ ''/studies/'' @ identifier @ ''/modify'') data json"

definition get_studies_identifier_module ::
  "orthanc \<Rightarrow> string \<Rightarrow> pyval \<Rightarrow> request" where
  "get_studies_identifier_module self identifier params =
     Get_request (orthanc_url self @ ''/studies/'' @ identifier @ ''/module'') params"

definition get_studies_identifier_module_patient ::
  "orthanc \<Rightarrow> string \<Rightarrow> pyval \<Rightarrow> request" where
  "get_studies_identifier_module_patient self identifier params =
     Get_request (orthanc_url self @ ''/studies/'' @ identifier @ ''/module_patient'') params"

definition get_studies_identifier_patient ::
  "orthanc \<Rightarrow> string \<Rightarrow> pyval \<Rightarrow> request" where
  "get_studies_identifier_patient self identifier params =
     Get_request (orthanc_url self @ ''/studies/'' @ identifier @ ''/patient'') params"

definition post_studies_identifier_reconstruct ::
  "orthanc \<Rightarrow> string \<Rightarrow> pyval \<Rightarrow> pyval \<Rightarrow> request" where
  "post_studies_identifier_reconstruct self identifier data json =
     Post_request (orthanc_url self @ ''/studies/'' @ identifier @ ''/reconstruct'') data json"

definition get_studies_identifier_series ::
  "orthanc \<Rightarrow> string \<Rightarrow> pyval \<Rightarrow> request" where
  "get_studies_identifier_series self identifier params =
     Get_request (orthanc_url self @ ''/studies/'' @ identifier @ ''/series'') params"

definition get_studies_identifier_shared_tags ::
  "orthanc \<Rightarrow> string \<Rightarrow> pyval \<Rightarrow> request" where
  "get_studies_identifier_shared_tags self identifier params =
     Get_request (orthanc_url self @ ''/studies/'' @ identifier @ ''/shared_tags'') params"

definition post_studies_identifier_split ::
  "orthanc \<Rightarrow> string \<Rightarrow> pyval \<Rightarrow> pyval \<Rightarrow> request" where
  "post_studies_identifier_split self identifier data json =
     Post_request (orthanc_url self @ ''/studies/'' @ identifier @ ''/split'') data json"

definition get_studies_identifier_statistics ::
  "orthanc \<Rightarrow> string \<Rightarrow> pyval \<Rightarrow> request" where
  "get_studies_identifier_statistics self identifier params =
     Get_request (orthanc_url self @ ''/studies/'' @ identifier @ ''/statistics'') params"

definition get_system ::
  "orthanc \<Rightarrow> pyval \<Rightarrow> request" where
  "get_system self params =
     Get_request (orthanc_url self @ ''/system'') params"

definition post_tools_create_archive ::
  "orthanc \<Rightarrow> pyval \<Rightarrow> pyval \<Rightarrow> request" where
  "post_tools_create_archive self data json =
     Post_request (orthanc_url self @ ''/tools/create_archive'') data json"

definition post_tools_create_dicom ::
  "orthanc \<Rightarrow> pyval \<Rightarrow> pyval \<Rightarrow> request" where
  "post_tools_create_dicom self data json =
     Post_request (orthanc_url self @ ''/tools/create_dicom'') data json"

definition post_tools_create_media ::
  "orthanc \<Rightarrow> pyval \<Rightarrow> pyval \<Rightarrow> request" where
  "post_tools_create_media self data json =
     Post_request (orthanc_url self @ ''/tools/create_media'') data json"

definition post_tools_create_media_extended ::
  "orthanc \<Rightarrow> pyval \<Rightarrow> pyval \<Rightarrow> request" where
  "post_tools_create_media_extended self data json =
     Post_request (orthanc_url self @ ''/tools/create_media_extended'') data json"

definition get_tools_default_encoding ::
  "orthanc \<Rightarrow> pyval \<Rightarrow> request" where
  "get_tools_default_encoding self params =
     Get_request (orthanc_url self @ ''/tools/default_encoding'') params"

definition put_tools_default_encoding ::
  "orthanc \<Rightarrow> pyval \<Rightarrow> pyval \<Rightarrow> request" where
  "put_tools_default_encoding self data json =
     Put_request (orthanc_url self @ ''/tools/default_encoding'') data json"

definition get_tools_dicom_conformance ::
  "orthanc \<Rightarrow> pyval \<Rightarrow> request" where
  "get_tools_dicom_conformance self params =
     Get_request (orthanc_url self @ ''/tools/dicom_conformance'') params"

definition post_tools_execute_script ::
  "orthanc \<Rightarrow> pyval \<Rightarrow> pyval \<Rightarrow> request" where
  "post_tools_execute_script self data json =
     Post_request (orthanc_url self @ ''/tools/execute_script'') data json"

definition post_tools_find ::
  "orthanc \<Rightarrow> pyval \<Rightarrow> pyval \<Rightarrow> request" where
  "post_tools_find self data json =
     Post_request (orthanc_url self @ ''/tools/find'') data json"

definition get_tools_generate_uid ::
  "orthanc \<Rightarrow> pyval \<Rightarrow> request" where
  "get_tools_generate_uid self params =
     Get_request (orthanc_url self @ ''/tools/generate_uid'') params"

definition post_tools_invalidate_tags ::
  "orthanc \<Rightarrow> pyval \<Rightarrow> pyval \<Rightarrow> request" where
  "post_tools_invalidate_tags self data json =
     Post_request (orthanc_url self @ ''/tools/invalidate_tags'') data json"

definition post_tools_lookup ::
  "orthanc \<Rightarrow> pyval \<Rightarrow> pyval \<Rightarrow> request" where
  "post_tools_lookup self data json =
     Post_request (orthanc_url self @ ''/tools/lookup'') data json"

definition get_tools_metrics ::
  "orthanc \<Rightarrow> pyval \<Rightarrow> request" where
  "get_tools_metrics self params =
     Get_request (orthanc_url self @ ''/tools/metrics'') params"

definition put_tools_metrics ::
  "orthanc \<Rightarrow> pyval \<Rightarrow> pyval \<Rightarrow> request" where
  "put_tools_metrics self data json =
     Put_request (orthanc_url self @ ''/tools/metrics'') data json"

definition get_tools_metrics_prometheus ::
  "orthanc \<Rightarrow> pyval \<Rightarrow> request" where
  "get_tools_metrics_prometheus self params =
     Get_request (orthanc_url self @ ''/tools/metrics_prometheus'') params"

definition get_tools_now ::
  "orthanc \<Rightarrow> pyval \<Rightarrow> request" where
  "get_tools_now self params =
     Get_request (orthanc_url self @ ''/tools/now'') params"

definition get_tools_now_local ::
  "orthanc \<Rightarrow> pyval \<Rightarrow> request" where
  "get_tools_now_local self params =
     Get_request (orthanc_url self @ ''/tools/now_local'') params"

definition post_tools_reconstruct ::
  "orthanc \<Rightarrow> pyval \<Rightarrow> pyval \<Rightarrow> request" where
  "post_tools_reconstruct self data json =
     Post_request (orthanc_url self @ ''/tools/reconstruct'') data json"

definition post_tools_reset ::
  "orthanc \<Rightarrow> pyval \<Rightarrow> pyval \<Rightarrow> request" where
  "post_tools_reset self data json =
     Post_request (orthanc_url self @ ''/tools/reset'') data json"

definition post_tools_shutdown ::
  "orthanc \<Rightarrow> pyval \<Rightarrow> pyval \<Rightarrow> request" where
  "post_tools_shutdown self data json =
     Post_request (orthanc_url self @ ''/tools/shutdown'') data json"


text \<open>
  The methods by name, for statements about all of them. The attachment and metadata
  methods take \<open>resource_type\<close>, \<open>identifier\<close> and (most of them) \<open>name\<close>; the other
  methods take up to three strings, here \<open>a\<close>, \<open>b\<close> and \<open>c\<close> in the order of their
  parameters.
\<close>

definition resource_endpoints ::
  "orthanc \<Rightarrow> string \<Rightarrow> string \<Rightarrow> string \<Rightarrow> pyval \<Rightarrow> pyval \<Rightarrow> pyval
     \<Rightarrow> (string \<times> request) list" where
  "resource_endpoints self resource_type identifier name params data json =
     [(''get_attachments'', get_attachments self resource_type identifier params),
      (''get_attachment_by_name'',
         get_attachment_by_name self resource_type identifier name params),
      (''delete_attachment_by_name'',
         delete_attachment_by_name self resource_type identifier name),
      (''put_attachment_by_name'',
         put_attachment_by_name self resource_type identifier name data json),
      (''post_compress_attachment'',
         post_compress_attachment self resource_type identifier name data json),
      (''get_attachment_compressed_data'',
         get_attachment_compressed_data self resource_type identifier name params),
      (''get_attachment_compressed_data_md5'',
         get_attachment_compressed_data_md5 self resource_type identifier name params),
      (''get_attachment_compressed_size'',
         get_attachment_compressed_size self resource_type identifier name params),
      (''get_attachment_data'', get_attachment_data self resource_type identifier name params),
      (''get_if_attachment_compressed'',
         get_if_attachment_compressed self resource_type identifier name params),
      (''get_attachments_name_md5'',
         get_attachments_name_md5 self resource_type identifier name params),
      (''get_resource_type_identifier_attachments_name_size'',
         get_resource_type_identifier_attachments_name_size self resource_type identifier name params),
      (''post_resource_type_identifier_attachments_name_uncompress'',
         post_resource_type_identifier_attachments_name_uncompress self resource_type identifier name data json),
      (''post_resource_type_identifier_attachments_name_verify_md5'',
         post_resource_type_identifier_attachments_name_verify_md5 self resource_type identifier name data json),
      (''get_resource_type_identifier_metadata'',
         get_resource_type_identifier_metadata self resource_type identifier params),
      (''get_resource_type_identifier_metadata_name'',
         get_resource_type_identifier_metadata_name self resource_type identifier name params),
      (''delete_resource_type_identifier_metadata_name'',
         delete_resource_type_identifier_metadata_name self resource_type identifier name),
      (''put_resource_type_identifier_metadata_name'',
         put_resource_type_identifier_metadata_name self resource_type identifier name data json)]"

definition other_endpoints ::
  "orthanc \<Rightarrow> string \<Rightarrow> string \<Rightarrow> string \<Rightarrow> pyval \<Rightarrow> pyval \<Rightarrow> pyval
     \<Rightarrow> (string \<times> request) list" where
  "other_endpoints self a b c params data json =
     [(''get_changes'', get_changes self params),
      (''delete_changes'', delete_changes self),
      (''get_exports'', get_exports self params),
      (''delete_exports'', delete_exports self),
      (''get_instances'', get_instances self params),
      (''post_instances'', post_instances self data json),
      (''get_instances_identifier'', get_instances_identifier self a params),
      (''delete_instances_identifier'', delete_instances_identifier self a),
      (''post_instances_identifier_anonymize'',
         post_instances_identifier_anonymize self a data json),
      (''get_instances_identifier_content'', get_instances_identifier_content self a params),
      (''get_instances_identifier_content_group_element'',
         get_instances_identifier_content_group_element self a b params),
      (''get_instances_identifier_content_group_element_index'',
         get_instances_identifier_content_group_element_index self a b c params),
      (''post_instances_identifier_export'',
         post_instances_identifier_export self a data json),
      (''get_instances_identifier_file'', get_instances_identifier_file self a params),
      (''get_instances_identifier_frames'', get_instances_identifier_frames self a params),
      (''get_instances_identifier_frames_frameNumber_image_int16'',
         get_instances_identifier_frames_frameNumber_image_int16 self a b params),
      (''get_instances_identifier_frames_frameNumber_image_uint16'',
         get_instances_identifier_frames_frameNumber_image_uint16 self a b params),
      (''get_instances_identifier_frames_frameNumber_image_uint8'',
         get_instances_identifier_frames_frameNumber_image_uint8 self a b params),
      (''get_instances_identifier_frames_frameNumber_matlab'',
         get_instances_identifier_frames_frameNumber_matlab self a b params),
      (''get_instances_identifier_frames_frameNumber_preview'',
         get_instances_identifier_frames_frameNumber_preview self a b params),
      (''get_instances_identifier_frames_frameNumber_raw'',
         get_instances_identifier_frames_frameNumber_raw self a b params),
      (''get_instances_identifier_frames_frameNumber_raw_gz'',
         get_instances_identifier_frames_frameNumber_raw_gz self a b params),
      (''get_instances_identifier_header'', get_instances_identifier_header self a params),
      (''get_instances_identifier_image_int16'',
         get_instances_identifier_image_int16 self a params),
      (''get_instances_identifier_image_uint16'',
         get_instances_identifier_image_uint16 self a params),
      (''get_instances_identifier_image_uint8'',
         get_instances_identifier_image_uint8 self a params),
      (''get_instances_identifier_matlab'', get_instances_identifier_matlab self a params),
      (''post_instances_identifier_modify'',
         post_instances_identifier_modify self a data json),
      (''get_instances_identifier_module'', get_instances_identifier_module self a params),
      (''get_instances_identifier_patient'', get_instances_identifier_patient self a params),
      (''get_instances_identifier_pdf'', get_instances_identifier_pdf self a params),
      (''get_instances_identifier_preview'', get_instances_identifier_preview self a params),
      (''post_instances_identifier_reconstruct'',
         post_instances_identifier_reconstruct self a data json),
      (''get_instances_identifier_series'', get_instances_identifier_series self a params),
      (''get_instances_identifier_simplified_tags'',
         get_instances_identifier_simplified_tags self a params),
      (''get_instances_identifier_statistics'',
         get_instances_identifier_statistics self a params),
      (''get_instances_identifier_study'', get_instances_identifier_study self a params),
      (''get_instances_identifier_tags'', get_instances_identifier_tags self a params),
      (''get_jobs'', get_jobs self params),
      (''get_jobs_identifier'', get_jobs_identifier self a params),
      (''post_jobs_identifier_cancel'', post_jobs_identifier_cancel self a data json),
      (''post_jobs_identifier_pause'', post_jobs_identifier_pause self a data json),
      (''post_jobs_identifier_resubmit'', post_jobs_identifier_resubmit self a data json),
      (''post_jobs_identifier_resume'', post_jobs_identifier_resume self a data json),
      (''get_jobs_identifier_key'', get_jobs_identifier_key self a b params),
      (''get_modalities'', get_modalities self params),
      (''get_modalities_dicom'', get_modalities_dicom self a params),
      (''delete_modalities_dicom'', delete_modalities_dicom self a),
      (''put_modalities_dicom'', put_modalities_dicom self a data json),
      (''post_modalities_dicom_echo'', post_modalities_dicom_echo self a data json),
      (''post_modalities_dicom_move'', post_modalities_dicom_move self a data json),
      (''post_modalities_dicom_query'', post_modalities_dicom_query self a data json),
      (''post_modalities_dicom_store'', post_modalities_dicom_store self a data json),
      (''get_patients'', get_patients self params),
      (''get_patients_identifier'', get_patients_identifier self a params),
      (''delete_patients_identifier'', delete_patients_identifier self a),
      (''post_patients_identifier_anonymize'',
         post_patients_identifier_anonymize self a data json),
      (''get_patients_identifier_archive'', get_patients_identifier_archive self a params),
      (''post_patients_identifier_archive'',
         post_patients_identifier_archive self a data json),
      (''get_patients_identifier_instances'', get_patients_identifier_instances self a params),
      (''get_patients_identifier_instances_tags'',
         get_patients_identifier_instances_tags self a params),
      (''get_patients_identifier_media'', get_patients_identifier_media self a params),
      (''post_patients_identifier_media'', post_patients_identifier_media self a data json),
      (''post_patients_identifier_modify'', post_patients_identifier_modify self a data json),
      (''get_patients_identifier_module'', get_patients_identifier_module self a params),
      (''get_patients_identifier_protected'', get_patients_identifier_protected self a params),
      (''put_patients_identifier_protected'',
         put_patients_identifier_protected self a data json),
      (''post_patients_identifier_reconstruct'',
         post_patients_identifier_reconstruct self a data json),
      (''get_patients_identifier_series'', get_patients_identifier_series self a params),
      (''get_patients_identifier_shared_tags'',
         get_patients_identifier_shared_tags self a params),
      (''get_patients_identifier_statistics'',
         get_patients_identifier_statistics self a params),
      (''get_patients_identifier_studies'', get_patients_identifier_studies self a params),
      (''get_peers'', get_peers self params),
      (''get_peers_peer'', get_peers_peer self a params),
      (''delete_peers_peer'', delete_peers_peer self a),
      (''put_peers_peer'', put_peers_peer self a data json),
      (''post_peers_peer_store'', post_peers_peer_store self a data json),
      (''get_plugins'', get_plugins self params),
      (''get_plugins_identifier'', get_plugins_identifier self a params),
      (''get_plugins_explorer_js'', get_plugins_explorer_js self params),
      (''get_queries'', get_queries self params),
      (''get_queries_identifier'', get_queries_identifier self a params),
      (''delete_queries_identifier'', delete_queries_identifier self a),
      (''get_queries_identifier_answers'', get_queries_identifier_answers self a params),
      (''get_queries_identifier_answers_index_content'',
         get_queries_identifier_answers_index_content self a b params),
      (''post_queries_identifier_answers_index_retrieve'',
         post_queries_identifier_answers_index_retrieve self a b data json),
      (''post_queries_identifier_answers_index_query_instances'',
         post_queries_identifier_answers_index_query_instances self a b data json),
      (''post_queries_identifier_answers_index_query_series'',
         post_queries_identifier_answers_index_query_series self a b data json),
      (''post_queries_identifier_answers_index_query_studies'',
         post_queries_identifier_answers_index_query_studies self a b data json),
      (''get_queries_identifier_level'', get_queries_identifier_level self a params),
      (''get_queries_identifier_modality'', get_queries_identifier_modality self a params),
      (''get_queries_identifier_query'', get_queries_identifier_query self a params),
      (''post_queries_identifier_retrieve'',
         post_queries_identifier_retrieve self a data json),
      (''get_series'', get_series self params),
      (''get_series_identifier'', get_series_identifier self a params),
      (''delete_series_identifier'', delete_series_identifier self a),
      (''post_series_identifier_anonymize'',
         post_series_identifier_anonymize self a data json),
      (''get_series_identifier_archive'', get_series_identifier_archive self a params),
      (''post_series_identifier_archive'', post_series_identifier_archive self a data json),
      (''get_series_identifier_instances'', get_series_identifier_instances self a params),
      (''get_series_identifier_instances_tags'',
         get_series_identifier_instances_tags self a params),
      (''get_series_identifier_media'', get_series_identifier_media self a params),
      (''post_series_identifier_media'', post_series_identifier_media self a data json),
      (''post_series_identifier_modify'', post_series_identifier_modify self a data json),
      (''get_series_identifier_module'', get_series_identifier_module self a params),
      (''get_series_identifier_ordered_slices'',
         get_series_identifier_ordered_slices self a params),
      (''get_series_identifier_patient'', get_series_identifier_patient self a params),
      (''post_series_identifier_reconstruct'',
         post_series_identifier_reconstruct self a data json),
      (''get_series_identifier_shared_tags'', get_series_identifier_shared_tags self a params),
      (''get_series_identifier_statistics'', get_series_identifier_statistics self a params),
      (''get_series_identifier_study'', get_series_identifier_study self a params),
      (''get_statistics'', get_statistics self params),
      (''get_studies'', get_studies self params),
      (''get_studies_identifier'', get_studies_identifier self a params),
      (''delete_studies_identifier'', delete_studies_identifier self a),
      (''post_studies_identifier_anonymize'',
         post_studies_identifier_anonymize self a data json),
      (''get_studies_identifier_archive'', get_studies_identifier_archive self a params),
      (''post_studies_identifier_archive'', post_studies_identifier_archive self a data json),
      (''get_studies_identifier_instances'', get_studies_identifier_instances self a params),
      (''get_studies_identifier_instances_tags'',
         get_studies_identifier_instances_tags self a params),
      (''get_studies_identifier_media'', get_studies_identifier_media self a params),
      (''post_studies_identifier_media'', post_studies_identifier_media self a data json),
      (''post_studies_identifier_merge'', post_studies_identifier_merge self a data json),
      (''post_studies_identifier_modify'', post_studies_identifier_modify self a data json),
      (''get_studies_identifier_module'', get_studies_identifier_module self a params),
      (''get_studies_identifier_module_patient'',
         get_studies_identifier_module_patient self a params),
      (''get_studies_identifier_patient'', get_studies_identifier_patient self a params),
      (''post_studies_identifier_reconstruct'',
         post_studies_identifier_reconstruct self a data json),
      (''get_studies_identifier_series'', get_studies_identifier_series self a params),
      (''get_studies_identifier_shared_tags'',
         get_studies_identifier_shared_tags self a params),
      (''post_studies_identifier_split'', post_studies_identifier_split self a data json),
      (''get_studies_identifier_statistics'', get_studies_identifier_statistics self a params),
      (''get_system'', get_system self params),
      (''post_tools_create_archive'', post_tools_create_archive self data json),
      (''post_tools_create_dicom'', post_tools_create_dicom self data json),
      (''post_tools_create_media'', post_tools_create_media self data json),
      (''post_tools_create_media_extended'', post_tools_create_media_extended self data json),
      (''get_tools_default_encoding'', get_tools_default_encoding self params),
      (''put_tools_default_encoding'', put_tools_default_encoding self data json),
      (''get_tools_dicom_conformance'', get_tools_dicom_conformance self params),
      (''post_tools_execute_script'', post_tools_execute_script self data json),
      (''post_tools_find'', post_tools_find self data json),
      (''get_tools_generate_uid'', get_tools_generate_uid self params),
      (''post_tools_invalidate_tags'', post_tools_invalidate_tags self data json),
      (''post_tools_lookup'', post_tools_lookup self data json),
      (''get_tools_metrics'', get_tools_metrics self params),
      (''put_tools_metrics'', put_tools_metrics self data json),
      (''get_tools_metrics_prometheus'', get_tools_metrics_prometheus self params),
      (''get_tools_now'', get_tools_now self params),
      (''get_tools_now_local'', get_tools_now_local self params),
      (''post_tools_reconstruct'', post_tools_reconstruct self data json),
      (''post_tools_reset'', post_tools_reset self data json),
      (''post_tools_shutdown'', post_tools_shutdown self data json)]"

definition endpoints ::
  "orthanc \<Rightarrow> string \<Rightarrow> string \<Rightarrow> string \<Rightarrow> pyval \<Rightarrow> pyval \<Rightarrow> pyval
     \<Rightarrow> (string \<times> request) list" where
  "endpoints self a b c params data json =
     resource_endpoints self a b c params data json @ other_endpoints self a b c params data json"

text \<open>The verb a method's name starts with.\<close>

definition name_verb :: "string \<Rightarrow> verb option" where
  "name_verb n =
     (let w = takeWhile (\<lambda>ch. ch \<noteq> CHR ''_'') n
      in if w = ''get'' then Some GET
         else if w = ''post'' then Some POST
         else if w = ''put'' then Some PUT
         else if w = ''delete'' then Some DELETE
         else None)"

text \<open>
  A keyword of the caller collides when it names a parameter the helper is called with,
  when it is \<open>url\<close>, the parameter of the requests functions that the route is bound to,
  or, once the credentials are set, when it is \<open>auth\<close>.
\<close>

definition collision :: "request \<Rightarrow> kwargs \<Rightarrow> orthanc \<Rightarrow> bool" where
  "collision r kwargs self =
     (duplicate (parameters r) kwargs \<noteq> None \<or> kwargs ''url'' \<noteq> None \<or>
      (credentials_are_set self \<and> kwargs ''auth'' \<noteq> None))"

text \<open>
  The payload a method called with \<open>params\<close>, \<open>data\<close> and \<open>json\<close> has to hand to its helper:
  \<open>params\<close> for a GET, \<open>data\<close> and \<open>json\<close> for a POST or a PUT, nothing for a DELETE.
\<close>

fun caller_payload :: "verb \<Rightarrow> pyval \<Rightarrow> pyval \<Rightarrow> pyval \<Rightarrow> (string \<times> pyval) list" where
  "caller_payload GET params data json = [(''params'', params)]"
| "caller_payload DELETE params data json = []"
| "caller_payload POST params data json = [(''data'', data), (''json'', json)]"
| "caller_payload PUT params data json = [(''data'', data), (''json'', json)]"

text \<open>The call of the library a helper makes last.\<close>

definition sent_by :: "('x, 'r) requests \<Rightarrow> request \<Rightarrow> kwargs \<Rightarrow> state \<Rightarrow> call" where
  "sent_by lib r kwargs s = last (sent (snd (helper lib r kwargs s)))"

section \<open>Sequences of operations on one object\<close>

text \<open>
  What a caller can do with an Orthanc object: set the credentials, call a verb helper,
  call an endpoint method (a function of the object, as its route is built from
  \<open>self._orthanc_url\<close> at the time of the call).
\<close>

datatype op =
    Setup_credentials string string
  | Helper request kwargs
  | Endpoint "orthanc \<Rightarrow> request" kwargs

fun exec :: "('x, 'r) requests \<Rightarrow> op \<Rightarrow> state \<Rightarrow> ('x exn + 'r option) \<times> state" where
  "exec lib (Setup_credentials username password) s =
     (Inr None, s\<lparr>obj := setup_credentials (obj s) username password\<rparr>)"
| "exec lib (Helper r kwargs) s =
     (case helper lib r kwargs s of (res, s') \<Rightarrow> (map_sum id Some res, s'))"
| "exec lib (Endpoint m kwargs) s =
     (case invoke lib (m (obj s)) kwargs s of (res, s') \<Rightarrow> (map_sum id Some res, s'))"

text \<open>
  A caller may catch an exception and go on using the object, so a sequence of
  operations runs to its end whatever each operation returns or raises.
\<close>

fun run :: "('x, 'r) requests \<Rightarrow> op list \<Rightarrow> state \<Rightarrow> state" where
  "run lib [] s = s"
| "run lib (x # xs) s = run lib xs (snd (exec lib x s))"

text \<open>
  Whether a sequence calls \<open>setup_credentials\<close>, and the credentials of its last such
  call (\<open>a\<close> when there is none).
\<close>

fun setup_called :: "op list \<Rightarrow> bool" where
  "setup_called [] = False"
| "setup_called (Setup_credentials _ _ # xs) = True"
| "setup_called (_ # xs) = setup_called xs"

fun last_credentials :: "op list \<Rightarrow> HTTPBasicAuth option \<Rightarrow> HTTPBasicAuth option" where
  "last_credentials [] a = a"
| "last_credentials (Setup_credentials u p # xs) a =
     last_credentials xs (Some (HTTPBasicAuth u p))"
| "last_credentials (_ # xs) a = last_credentials xs a"

text \<open>The calls an operation adds to those made before it.\<close>

definition new_calls :: "state \<Rightarrow> state \<Rightarrow> call list" where
  "new_calls s s' = drop (length (sent s)) (sent s')"

section \<open>Servers for the examples\<close>

text \<open>A library and server that answer every call with the same response, or raise.\<close>

definition answers :: "'r \<Rightarrow> (unit, 'r) requests" where
  "answers r log c = Inr r"

definition refuses :: "string \<Rightarrow> (string, nat) requests" where
  "refuses x log c = Inl x"

section \<open>Facts about the helpers\<close>

lemma duplicate_None: "duplicate ns kw = None \<longleftrightarrow> (\<forall>k\<in>set ns. kw k = None)"
  by (induction ns) (auto simp: duplicate_def)

lemma py_call_sends:
  "duplicate (map fst ex) kw = None \<Longrightarrow>
   duplicate (take (length pos) (positional_names f)) (kw ++ map_of ex) = None \<Longrightarrow>
   py_call lib f pos ex kw s =
     (outcome (lib (sent s) \<lparr>func = f, args = pos, keyword_args = kw ++ map_of ex\<rparr>),
      s\<lparr>sent := sent s @ [\<lparr>func = f, args = pos, keyword_args = kw ++ map_of ex\<rparr>]\<rparr>)"
  by (simp add: py_call_def Let_def)

lemma py_call_obj: "obj (snd (py_call lib f pos ex kw s)) = obj s"
  by (simp add: py_call_def Let_def split: option.splits)

lemma helper_obj: "obj (snd (helper lib r kw s)) = obj s"
  by (cases r)
     (simp_all add: get_request_def delete_request_def post_request_def put_request_def
        py_call_obj)

lemma invoke_obj: "obj (snd (invoke lib r kw s)) = obj s"
  by (simp add: invoke_def helper_obj split: option.splits)

text \<open>Without a collision a helper makes one call and returns the library's answer to it.\<close>

lemma helper_sends:
  assumes "\<not> collision r kw (obj s)"
  shows "helper lib r kw s =
           (outcome (lib (sent s) (sent_by lib r kw s)),
            s\<lparr>sent := sent s @ [sent_by lib r kw s]\<rparr>)"
  using assms unfolding sent_by_def
  by (cases r; cases "credentials_are_set (obj s)")
     (simp_all add: collision_def parameters_def duplicate_None get_request_def
        delete_request_def post_request_def put_request_def py_call_sends)

lemma sent_by_props:
  assumes "\<not> collision r kw (obj s)"
  shows "func (sent_by lib r kw s) = helper_verb r"
    and "args (sent_by lib r kw s) ! 0 = PyStr (route r)"
    and "argument (sent_by lib r kw s) ''url'' = Some (PyStr (route r))"
    and "list_all (\<lambda>(k, v). argument (sent_by lib r kw s) k = Some v) (payload r)"
    and "kw k = Some v \<Longrightarrow> keyword_args (sent_by lib r kw s) k = Some v"
    and "kw k = None \<Longrightarrow> k \<notin> set (map fst (payload r)) \<Longrightarrow> k \<noteq> ''auth''
           \<Longrightarrow> keyword_args (sent_by lib r kw s) k = None"
    and "keyword_args (sent_by lib r kw s) ''auth'' =
           (if credentials_are_set (obj s) then Some (auth_arg (obj s)) else kw ''auth'')"
  using assms unfolding sent_by_def
  by (cases r; cases "credentials_are_set (obj s)";
      auto simp: collision_def parameters_def duplicate_None get_request_def
        delete_request_def post_request_def put_request_def py_call_sends argument_def
        map_add_def)+

text \<open>With one, Python raises TypeError and nothing is sent.\<close>

lemma helper_raises:
  assumes "collision r kw (obj s)" "duplicate (parameters r) kw = None"
  shows "\<exists>k. helper lib r kw s = (Inl (TypeError k), s)"
  using assms
  by (cases r; cases "credentials_are_set (obj s)")
     (auto simp: collision_def parameters_def get_request_def delete_request_def
        post_request_def put_request_def py_call_def duplicate_def map_add_def
        split: if_splits option.splits)

lemma invoke_sends: "\<not> collision r kw (obj s) \<Longrightarrow> invoke lib r kw s = helper lib r kw s"
  by (auto simp: invoke_def collision_def)

lemma invoke_raises:
  "collision r kw (obj s) \<Longrightarrow> \<exists>k. invoke lib r kw s = (Inl (TypeError k), s)"
  using helper_raises[of r kw s lib]
  by (cases "duplicate (parameters r) kw") (auto simp: invoke_def)

section \<open>Facts about all endpoint methods\<close>

lemmas endpoint_defs =
  get_attachments_def get_attachment_by_name_def delete_attachment_by_name_def
  put_attachment_by_name_def post_compress_attachment_def get_attachment_compressed_data_def
  get_attachment_compressed_data_md5_def get_attachment_compressed_size_def
  get_attachment_data_def get_if_attachment_compressed_def get_attachments_name_md5_def
  get_resource_type_identifier_attachments_name_size_def
  post_resource_type_identifier_attachments_name_uncompress_def
  post_resource_type_identifier_attachments_name_verify_md5_def
  get_resource_type_identifier_metadata_def get_resource_type_identifier_metadata_name_def
  delete_resource_type_identifier_metadata_name_def
  put_resource_type_identifier_metadata_name_def get_changes_def delete_changes_def
  get_exports_def delete_exports_def get_instances_def post_instances_def
  get_instances_identifier_def delete_instances_identifier_def
  post_instances_identifier_anonymize_def get_instances_identifier_content_def
  get_instances_identifier_content_group_element_def
  get_instances_identifier_content_group_element_index_def
  post_instances_identifier_export_def get_instances_identifier_file_def
  get_instances_identifier_frames_def
  get_instances_identifier_frames_frameNumber_image_int16_def
  get_instances_identifier_frames_frameNumber_image_uint16_def
  get_instances_identifier_frames_frameNumber_image_uint8_def
  get_instances_identifier_frames_frameNumber_matlab_def
  get_instances_identifier_frames_frameNumber_preview_def
  get_instances_identifier_frames_frameNumber_raw_def
  get_instances_identifier_frames_frameNumber_raw_gz_def get_instances_identifier_header_def
  get_instances_identifier_image_int16_def get_instances_identifier_image_uint16_def
  get_instances_identifier_image_uint8_def get_instances_identifier_matlab_def
  post_instances_identifier_modify_def get_instances_identifier_module_def
  get_instances_identifier_patient_def get_instances_identifier_pdf_def
  get_instances_identifier_preview_def post_instances_identifier_reconstruct_def
  get_instances_identifier_series_def get_instances_identifier_simplified_tags_def
  get_instances_identifier_statistics_def get_instances_identifier_study_def
  get_instances_identifier_tags_def get_jobs_def get_jobs_identifier_def
  post_jobs_identifier_cancel_def post_jobs_identifier_pause_def
  post_jobs_identifier_resubmit_def post_jobs_identifier_resume_def
  get_jobs_identifier_key_def get_modalities_def get_modalities_dicom_def
  delete_modalities_dicom_def put_modalities_dicom_def post_modalities_dicom_echo_def
  post_modalities_dicom_move_def post_modalities_dicom_query_def
  post_modalities_dicom_store_def get_patients_def get_patients_identifier_def
  delete_patients_identifier_def post_patients_identifier_anonymize_def
  get_patients_identifier_archive_def post_patients_identifier_archive_def
  get_patients_identifier_instances_def get_patients_identifier_instances_tags_def
  get_patients_identifier_media_def post_patients_identifier_media_def
  post_patients_identifier_modify_def get_patients_identifier_module_def
  get_patients_identifier_protected_def put_patients_identifier_protected_def
  post_patients_identifier_reconstruct_def get_patients_identifier_series_def
  get_patients_identifier_shared_tags_def get_patients_identifier_statistics_def
  get_patients_identifier_studies_def get_peers_def get_peers_peer_def delete_peers_peer_def
  put_peers_peer_def post_peers_peer_store_def get_plugins_def get_plugins_identifier_def
  get_plugins_explorer_js_def get_queries_def get_queries_identifier_def
  delete_queries_identifier_def get_queries_identifier_answers_def
  get_queries_identifier_answers_index_content_def
  post_queries_identifier_answers_index_retrieve_def
  post_queries_identifier_answers_index_query_instances_def
  post_queries_identifier_answers_index_query_series_def
  post_queries_identifier_answers_index_query_studies_def get_queries_identifier_level_def
  get_queries_identifier_modality_def get_queries_identifier_query_def
  post_queries_identifier_retrieve_def get_series_def get_series_identifier_def
  delete_series_identifier_def post_series_identifier_anonymize_def
  get_series_identifier_archive_def post_series_identifier_archive_def
  get_series_identifier_instances_def get_series_identifier_instances_tags_def
  get_series_identifier_media_def post_series_identifier_media_def
  post_series_identifier_modify_def get_series_identifier_module_def
  get_series_identifier_ordered_slices_def get_series_identifier_patient_def
  post_series_identifier_reconstruct_def get_series_identifier_shared_tags_def
  get_series_identifier_statistics_def get_series_identifier_study_def get_statistics_def
  get_studies_def get_studies_identifier_def delete_studies_identifier_def
  post_studies_identifier_anonymize_def get_studies_identifier_archive_def
  post_studies_identifier_archive_def get_studies_identifier_instances_def
  get_studies_identifier_instances_tags_def get_studies_identifier_media_def
  post_studies_identifier_media_def post_studies_identifier_merge_def
  post_studies_identifier_modify_def get_studies_identifier_module_def
  get_studies_identifier_module_patient_def get_studies_identifier_patient_def
  post_studies_identifier_reconstruct_def get_studies_identifier_series_def
  get_studies_identifier_shared_tags_def post_studies_identifier_split_def
  get_studies_identifier_statistics_def get_system_def post_tools_create_archive_def
  post_tools_create_dicom_def post_tools_create_media_def post_tools_create_media_extended_def
  get_tools_default_encoding_def put_tools_default_encoding_def
  get_tools_dicom_conformance_def post_tools_execute_script_def post_tools_find_def
  get_tools_generate_uid_def post_tools_invalidate_tags_def post_tools_lookup_def
  get_tools_metrics_def put_tools_metrics_def get_tools_metrics_prometheus_def
  get_tools_now_def get_tools_now_local_def post_tools_reconstruct_def post_tools_reset_def
  post_tools_shutdown_def

lemma no_collision_empty: "\<not> collision r Map.empty self"
  by (simp add: collision_def duplicate_None)



lemma endpoints_prefix:
  "list_all (\<lambda>(n, r). prefix (orthanc_url self @ ''/'') (route r))
     (endpoints self a b c params data json)"
  by (simp add: endpoints_def resource_endpoints_def other_endpoints_def endpoint_defs)

lemma endpoints_verb:
  "list_all (\<lambda>(n, r). name_verb n = Some (helper_verb r))
     (endpoints self a b c params data json)"
  by (simp add: endpoints_def resource_endpoints_def other_endpoints_def endpoint_defs name_verb_def)


section \<open>Facts about sequences of operations\<close>

lemma setup_credentials_fields:
  "credentials_are_set (setup_credentials self u p)"
  "credentials (setup_credentials self u p) = Some (HTTPBasicAuth u p)"
  "orthanc_url (setup_credentials self u p) = orthanc_url self"
  by (simp_all add: setup_credentials_def)

lemma exec_snd:
  "snd (exec lib (Setup_credentials u p) s) = s\<lparr>obj := setup_credentials (obj s) u p\<rparr>"
  "snd (exec lib (Helper r kw) s) = snd (helper lib r kw s)"
  "snd (exec lib (Endpoint m kw) s) = snd (invoke lib (m (obj s)) kw s)"
  by (simp_all split: prod.splits)

lemma exec_obj:
  "obj (snd (exec lib x s)) =
     (case x of Setup_credentials u p \<Rightarrow> setup_credentials (obj s) u p | _ \<Rightarrow> obj s)"
  by (cases x) (simp_all only: exec_snd helper_obj invoke_obj op.case, simp)

lemma run_fields:
  "credentials_are_set (obj (run lib ops s)) = (setup_called ops \<or> credentials_are_set (obj s))"
  "credentials (obj (run lib ops s)) = last_credentials ops (credentials (obj s))"
  "orthanc_url (obj (run lib ops s)) = orthanc_url (obj s)"
proof (induction ops arbitrary: s)
  case Nil
  {
    case 1 show ?case by simp
  next
    case 2 show ?case by simp
  next
    case 3 show ?case by simp
  }
next
  case (Cons x xs)
  {
    case 1 show ?case
      by (cases x) (simp_all add: Cons.IH(1) exec_obj setup_credentials_fields del: exec.simps)
  next
    case 2 show ?case
      by (cases x) (simp_all add: Cons.IH(2) exec_obj setup_credentials_fields del: exec.simps)
  next
    case 3 show ?case
      by (cases x) (simp_all add: Cons.IH(3) exec_obj setup_credentials_fields del: exec.simps)
  }
qed

lemma last_credentials_not_called: "\<not> setup_called ops \<Longrightarrow> last_credentials ops a = a"
  by (induction ops arbitrary: a) (auto elim: setup_called.elims)

lemma last_credentials_called:
  "setup_called ops \<Longrightarrow> \<exists>u p. last_credentials ops a = Some (HTTPBasicAuth u p)"
proof (induction ops a rule: last_credentials.induct)
  case (2 u p xs a)
  show ?case
  proof (cases "setup_called xs")
    case True
    then show ?thesis using "2.IH" by simp
  next
    case False
    then show ?thesis by (simp add: last_credentials_not_called)
  qed
qed simp_all

lemma init_fields:
  "\<not> credentials_are_set (obj (init url))" "credentials (obj (init url)) = None"
  "orthanc_url (obj (init url)) = url" "sent (init url) = []"
  by (simp_all add: init_def Orthanc_def)

lemma reachable_fields:
  "credentials_are_set (obj (run lib ops (init url))) = setup_called ops"
  "credentials (obj (run lib ops (init url))) = last_credentials ops None"
  "orthanc_url (obj (run lib ops (init url))) = url"
  by (simp_all add: run_fields init_fields)

lemma reachable_auth_arg:
  "auth_arg (obj (run lib ops (init url))) =
     (case last_credentials ops None of None \<Rightarrow> PyNone | Some a \<Rightarrow> PyAuth a)"
  by (simp add: auth_arg_def reachable_fields)

lemma py_call_new_calls:
  "c \<in> set (new_calls s (snd (py_call lib f pos ex kw s))) \<Longrightarrow>
     keyword_args c = kw ++ map_of ex"
  by (auto simp: new_calls_def py_call_def Let_def split: option.splits)

lemma helper_new_calls_auth:
  "c \<in> set (new_calls s (snd (helper lib r kw s))) \<Longrightarrow> credentials_are_set (obj s) \<Longrightarrow>
     keyword_args c ''auth'' = Some (auth_arg (obj s))"
  by (cases r)
     (auto simp: get_request_def delete_request_def post_request_def put_request_def
        dest!: py_call_new_calls)

lemma invoke_new_calls_auth:
  "c \<in> set (new_calls s (snd (invoke lib r kw s))) \<Longrightarrow> credentials_are_set (obj s) \<Longrightarrow>
     keyword_args c ''auth'' = Some (auth_arg (obj s))"
  using helper_new_calls_auth[of c s lib r kw]
  by (auto simp: invoke_def new_calls_def split: option.splits)

lemma exec_new_calls_auth:
  "c \<in> set (new_calls s (snd (exec lib x s))) \<Longrightarrow> credentials_are_set (obj s) \<Longrightarrow>
     keyword_args c ''auth'' = Some (auth_arg (obj s))"
proof (cases x)
  case (Setup_credentials u p)
  assume "c \<in> set (new_calls s (snd (exec lib x s)))"
  with Setup_credentials show ?thesis by (simp add: new_calls_def)
next
  case (Helper r kw)
  assume "c \<in> set (new_calls s (snd (exec lib x s)))" "credentials_are_set (obj s)"
  with Helper show ?thesis
    using helper_new_calls_auth[of c s lib r kw] by (simp only: exec_snd)
next
  case (Endpoint m kw)
  assume "c \<in> set (new_calls s (snd (exec lib x s)))" "credentials_are_set (obj s)"
  with Endpoint show ?thesis
    using invoke_new_calls_auth[of c s lib "m (obj s)" kw] by (simp only: exec_snd)
qed

section \<open>Facts about endpoint invocations\<close>

lemma sent_by_args:
  assumes "\<not> collision r kw (obj s)" "helper_verb r \<noteq> PUT"
  shows "args (sent_by lib r kw s) = [PyStr (route r)]"
  using assms unfolding sent_by_def
  by (cases r; cases "credentials_are_set (obj s)")
     (simp_all add: collision_def parameters_def duplicate_None get_request_def
        delete_request_def post_request_def put_request_def py_call_sends)

lemma invoke_call:
  assumes "\<not> collision r kw (obj s)"
  shows "invoke lib r kw s =
           (outcome (lib (sent s) (sent_by lib r kw s)),
            s\<lparr>sent := sent s @ [sent_by lib r kw s]\<rparr>)"
  using assms helper_sends[of r kw s lib] by (simp add: invoke_sends)

lemma invoke_requests:
  assumes "\<not> collision r kw (obj s)" "helper_verb r \<noteq> PUT"
  shows "\<exists>c. sent (snd (invoke lib r kw s)) = sent s @ [c] \<and> func c = helper_verb r \<and>
           args c = [PyStr (route r)]"
  using assms by (simp add: invoke_call sent_by_props(1) sent_by_args)

lemma invoke_forwards:
  assumes "\<not> collision r kw (obj s)"
  shows "\<exists>q. invoke lib r kw s = (outcome (lib (sent s) q), s\<lparr>sent := sent s @ [q]\<rparr>) \<and>
           func q = helper_verb r \<and>
           argument q ''url'' = Some (PyStr (route r)) \<and>
           (\<forall>(k, v) \<in> set (payload r). argument q k = Some v) \<and>
           (\<forall>k v. kw k = Some v \<longrightarrow> keyword_args q k = Some v) \<and>
           (\<forall>k. keyword_args q k \<noteq> None \<longrightarrow>
              kw k \<noteq> None \<or> k \<in> set (map fst (payload r)) \<or>
              (k = ''auth'' \<and> credentials_are_set (obj s)))"
proof -
  let ?q = "sent_by lib r kw s"
  have 1: "invoke lib r kw s = (outcome (lib (sent s) ?q), s\<lparr>sent := sent s @ [?q]\<rparr>)"
    using assms by (rule invoke_call)
  have 2: "func ?q = helper_verb r" "argument ?q ''url'' = Some (PyStr (route r))"
    using assms by (simp_all add: sent_by_props)
  have 3: "\<forall>(k, v) \<in> set (payload r). argument ?q k = Some v"
    using sent_by_props(4)[OF assms, of lib] by (simp add: list_all_iff)
  have 4: "\<forall>k v. kw k = Some v \<longrightarrow> keyword_args ?q k = Some v"
    using sent_by_props(5)[OF assms] by blast
  have 5: "kw k \<noteq> None \<or> k \<in> set (map fst (payload r)) \<or>
             (k = ''auth'' \<and> credentials_are_set (obj s))"
    if h: "keyword_args ?q k \<noteq> None" for k
  proof (rule ccontr)
    assume n: "\<not> (kw k \<noteq> None \<or> k \<in> set (map fst (payload r)) \<or>
             (k = ''auth'' \<and> credentials_are_set (obj s)))"
    show False
    proof (cases "k = ''auth''")
      case True
      with n have "\<not> credentials_are_set (obj s)" "kw ''auth'' = None" by auto
      with h True show False using sent_by_props(7)[OF assms, of lib] by simp
    next
      case False
      with n h show False using sent_by_props(6)[OF assms, of k lib] by auto
    qed
  qed
  from 1 2 3 4 5 show ?thesis by blast
qed


lemma resource_endpoints_embed:
  "list_all (\<lambda>(n, r).
      prefix (orthanc_url self @ ''/'' @ resource_type @ ''/'' @ identifier @ ''/'') (route r) \<and>
      (n = ''get_attachments'' \<or> n = ''get_resource_type_identifier_metadata'' \<or>
       prefix (orthanc_url self @ ''/'' @ resource_type @ ''/'' @ identifier @ ''/attachments/'' @ name)
         (route r) \<or>
       prefix (orthanc_url self @ ''/'' @ resource_type @ ''/'' @ identifier @ ''/metadata/'' @ name)
         (route r)))
     (resource_endpoints self resource_type identifier name params data json)"
  by (simp add: resource_endpoints_def endpoint_defs)

lemma invoke_no_TypeError:
  assumes "\<not> collision r kw (obj s)"
  shows "fst (invoke lib r kw s) \<noteq> Inl (TypeError k)"
  using assms by (simp add: invoke_call outcome_def split: sum.splits)

lemma helper_new_calls_no_auth:
  "c \<in> set (new_calls s (snd (helper lib r kw s))) \<Longrightarrow> \<not> credentials_are_set (obj s) \<Longrightarrow>
     keyword_args c ''auth'' = kw ''auth''"
  by (cases r)
     (auto simp: get_request_def delete_request_def post_request_def put_request_def
        map_add_def dest!: py_call_new_calls)

lemma endpoints_payload:
  "list_all (\<lambda>(n, r). payload r = caller_payload (helper_verb r) params data json)
     (endpoints self a b c params data json)"
  by (simp add: endpoints_def resource_endpoints_def other_endpoints_def endpoint_defs)

lemma helper_of_verb:
  assumes "payload r = caller_payload (helper_verb r) params data json"
  shows "helper lib r kw s =
           (case helper_verb r of
              GET \<Rightarrow> get_request lib (route r) params kw s
            | DELETE \<Rightarrow> delete_request lib (route r) kw s
            | POST \<Rightarrow> post_request lib (route r) data json kw s
            | PUT \<Rightarrow> put_request lib (route r) data json kw s)"
  using assms by (cases r) simp_all

section \<open>Evaluating an example\<close>

lemmas evaluation =
  init_def Orthanc_def setup_credentials_def auth_arg_def invoke_def duplicate_def
  parameters_def get_request_def delete_request_def post_request_def put_request_def
  py_call_def outcome_def answers_def refuses_def new_calls_def argument_def collision_def
  Let_def

section \<open>The claims\<close>

subsection \<open>C2\<close>

text \<open>
  C2 (as amended). On every Orthanc object, whatever was done with it since its
  construction, every request a verb helper sends when its caller's keywords do not
  themselves contain \<open>auth\<close> carries \<open>auth\<close> equal to the credentials set last if
  \<open>setup_credentials\<close> has been called on the object before, and has no \<open>auth\<close> argument
  otherwise. The helper sends that request whenever no keyword of the caller names a
  parameter of the helper or is \<open>url\<close>.
\<close>

theorem helper_attaches_credentials:
  assumes "kw ''auth'' = None"
  shows "(\<forall>q \<in> set (new_calls (run lib ops (init url))
                      (snd (helper lib r kw (run lib ops (init url))))).
            keyword_args q ''auth'' =
              (if setup_called ops then map_option PyAuth (last_credentials ops None)
               else None)) \<and>
         (setup_called ops \<longrightarrow> last_credentials ops None \<noteq> None) \<and>
         (duplicate (parameters r) kw = None \<and> kw ''url'' = None \<longrightarrow>
            (\<exists>q. sent (snd (helper lib r kw (run lib ops (init url)))) =
                   sent (run lib ops (init url)) @ [q]))"
proof -
  let ?s = "run lib ops (init url)"
  have 1: "keyword_args q ''auth'' =
              (if setup_called ops then map_option PyAuth (last_credentials ops None) else None)"
    if h: "q \<in> set (new_calls ?s (snd (helper lib r kw ?s)))" for q
  proof (cases "setup_called ops")
    case True
    then obtain u p where "last_credentials ops None = Some (HTTPBasicAuth u p)"
      using last_credentials_called by blast
    with True h show ?thesis
      using helper_new_calls_auth[of q ?s lib r kw]
      by (simp add: reachable_fields reachable_auth_arg)
  next
    case False
    with h assms show ?thesis
      using helper_new_calls_no_auth[of q ?s lib r kw] by (simp add: reachable_fields)
  qed
  have 2: "setup_called ops \<longrightarrow> last_credentials ops None \<noteq> None"
    using last_credentials_called[of ops None] by auto
  have 3: "\<exists>q. sent (snd (helper lib r kw ?s)) = sent ?s @ [q]"
    if "duplicate (parameters r) kw = None \<and> kw ''url'' = None"
  proof -
    from that assms have "\<not> collision r kw (obj ?s)" by (simp add: collision_def)
    then show ?thesis using helper_sends[of r kw ?s lib] by simp
  qed
  from 1 2 3 show ?thesis by blast
qed

theorem helper_attaches_credentials_witness:
  "map (\<lambda>q. keyword_args q ''auth'')
     (sent (snd (helper (answers (200::nat)) (Delete_request ''http://localhost:8042/changes'')
        [''timeout'' \<mapsto> PyInt 5]
        (run (answers (200::nat)) [Setup_credentials ''u'' ''p''] (init ''http://localhost:8042''))))) =
     [Some (PyAuth (HTTPBasicAuth ''u'' ''p''))] \<and>
   map (\<lambda>q. keyword_args q ''auth'')
     (sent (snd (helper (answers (200::nat)) (Put_request ''http://localhost:8042/peers/x'' PyNone PyNone)
        [''timeout'' \<mapsto> PyInt 5]
        (run (answers (200::nat)) [] (init ''http://localhost:8042''))))) = [None]"
  using helper_attaches_credentials
    [where r = "Delete_request ''http://localhost:8042/changes''" and
        kw = "[''timeout'' \<mapsto> PyInt 5]" and lib = "answers (200::nat)" and
        ops = "[Setup_credentials ''u'' ''p'']" and url = "''http://localhost:8042''"]
    helper_attaches_credentials
    [where r = "Put_request ''http://localhost:8042/peers/x'' PyNone PyNone" and
        kw = "[''timeout'' \<mapsto> PyInt 5]" and lib = "answers (200::nat)" and
        ops = "[]" and url = "''http://localhost:8042''"]
  by (simp add: evaluation)

text \<open>
  C2 as stated fails: on an object whose \<open>setup_credentials\<close> was never called,
  \<open>get_request(route, auth=...)\<close> sends the request with the caller's \<open>auth\<close> argument.
\<close>

theorem helper_auth_counterexample:
  "\<not> setup_called [] \<and>
   map (\<lambda>q. keyword_args q ''auth'')
     (sent (snd (helper (answers (200::nat)) (Get_request ''http://localhost:8042/patients'' PyNone)
        [''auth'' \<mapsto> PyAuth (HTTPBasicAuth ''u'' ''p'')]
        (run (answers (200::nat)) [] (init ''http://localhost:8042''))))) =
     [Some (PyAuth (HTTPBasicAuth ''u'' ''p''))]"
  by (simp add: evaluation)

subsection \<open>C3\<close>



subsection \<open>C4\<close>

text \<open>
  C4. Whenever an endpoint method calls the requests library, it calls it once (no
  retry) and returns what that call gives, unchanged: the response, whatever its status
  (the response type is arbitrary, the client cannot look into it), or the library's
  exception, untranslated.
\<close>

theorem response_returned_unchanged:
  assumes "sent (snd (invoke lib r kw s)) = sent s @ c # cs"
  shows "cs = [] \<and>
         fst (invoke lib r kw s) =
           (case lib (sent s) c of Inl x \<Rightarrow> Inl (Raised x) | Inr resp \<Rightarrow> Inr resp)"
proof (cases "collision r kw (obj s)")
  case True
  then obtain k where "invoke lib r kw s = (Inl (TypeError k), s)"
    using invoke_raises by blast
  with assms show ?thesis by simp
next
  case False
  with assms show ?thesis by (simp add: invoke_call outcome_def)
qed

theorem response_returned_unchanged_witness:
  "fst (invoke (answers (404::nat)) (get_patients_identifier (Orthanc ''http://localhost:8042'') ''e34c'' PyNone)
      Map.empty (init ''http://localhost:8042'')) = Inr 404 \<and>
   fst (invoke (refuses ''ConnectionError'') (get_patients_identifier (Orthanc ''http://localhost:8042'') ''e34c'' PyNone)
      Map.empty (init ''http://localhost:8042'')) = Inl (Raised ''ConnectionError'')"
  using response_returned_unchanged
    [of "answers (404::nat)" "get_patients_identifier (Orthanc ''http://localhost:8042'') ''e34c'' PyNone"
        Map.empty "init ''http://localhost:8042''"
        "\<lparr>func = GET, args = [PyStr ''http://localhost:8042/patients/e34c''],
          keyword_args = [''params'' \<mapsto> PyNone]\<rparr>" "[]"]
    response_returned_unchanged
    [of "refuses ''ConnectionError''" "get_patients_identifier (Orthanc ''http://localhost:8042'') ''e34c'' PyNone"
        Map.empty "init ''http://localhost:8042''"
        "\<lparr>func = GET, args = [PyStr ''http://localhost:8042/patients/e34c''],
          keyword_args = [''params'' \<mapsto> PyNone]\<rparr>" "[]"]
  by (simp add: evaluation get_patients_identifier_def)

subsection \<open>C5\<close>

text \<open>
  C5 (as amended). Every invocation of an endpoint method leaves the fields
  \<open>_orthanc_url\<close>, \<open>_credentials\<close> and \<open>_credentials_are_set\<close> as they were, and makes at
  most one call of the requests library: exactly one when no keyword of the caller
  collides with an argument the client passes itself, and none, with a TypeError, when
  one does (\<open>self\<close>, \<open>route\<close>, the method's own payload names, \<open>url\<close>, and \<open>auth\<close> once
  the credentials are set).
\<close>

theorem endpoint_frame_and_calls:
  "orthanc_url (obj (snd (exec lib (Endpoint m kw) s))) = orthanc_url (obj s) \<and>
   credentials (obj (snd (exec lib (Endpoint m kw) s))) = credentials (obj s) \<and>
   credentials_are_set (obj (snd (exec lib (Endpoint m kw) s))) = credentials_are_set (obj s) \<and>
   (if collision (m (obj s)) kw (obj s)
    then sent (snd (exec lib (Endpoint m kw) s)) = sent s \<and>
         (\<exists>k. fst (exec lib (Endpoint m kw) s) = Inl (TypeError k))
    else \<exists>c. sent (snd (exec lib (Endpoint m kw) s)) = sent s @ [c])"
proof -
  have frame: "obj (snd (exec lib (Endpoint m kw) s)) = obj s"
    by (simp add: exec_obj del: exec.simps)
  have calls: "if collision (m (obj s)) kw (obj s)
    then sent (snd (exec lib (Endpoint m kw) s)) = sent s \<and>
         (\<exists>k. fst (exec lib (Endpoint m kw) s) = Inl (TypeError k))
    else \<exists>c. sent (snd (exec lib (Endpoint m kw) s)) = sent s @ [c]"
  proof (cases "collision (m (obj s)) kw (obj s)")
    case True
    then obtain k where "invoke lib (m (obj s)) kw s = (Inl (TypeError k), s)"
      using invoke_raises by blast
    with True show ?thesis by simp
  next
    case False
    then show ?thesis by (simp add: invoke_call)
  qed
  from frame calls show ?thesis by simp
qed

theorem endpoint_frame_and_calls_witness:
  "sent (snd (exec (answers (404::nat))
       (Endpoint (\<lambda>self. get_patients self PyNone) [''timeout'' \<mapsto> PyInt 5])
       (init ''http://localhost:8042''))) =
     [\<lparr>func = GET, args = [PyStr ''http://localhost:8042/patients''],
       keyword_args = [''timeout'' \<mapsto> PyInt 5, ''params'' \<mapsto> PyNone]\<rparr>] \<and>
   obj (snd (exec (answers (404::nat))
       (Endpoint (\<lambda>self. get_patients self PyNone) [''timeout'' \<mapsto> PyInt 5])
       (init ''http://localhost:8042''))) = Orthanc ''http://localhost:8042''"
  using endpoint_frame_and_calls
    [of "answers (404::nat)" "\<lambda>self. get_patients self PyNone" "[''timeout'' \<mapsto> PyInt 5]"
        "init ''http://localhost:8042''"]
  by (simp add: evaluation get_patients_def)

text \<open>
  C5 as stated fails: after \<open>setup_credentials\<close>, \<open>get_patients(auth=...)\<close> raises
  TypeError before any call of the library, so the invocation makes no HTTP call.
\<close>

theorem endpoint_one_call_counterexample:
  "sent (snd (exec (answers (200::nat))
       (Endpoint (\<lambda>self. get_patients self PyNone)
          [''auth'' \<mapsto> PyAuth (HTTPBasicAuth ''u'' ''p'')])
       (run (answers (200::nat)) [Setup_credentials ''u'' ''p'']
          (init ''http://localhost:8042'')))) = [] \<and>
   fst (exec (answers (200::nat))
       (Endpoint (\<lambda>self. get_patients self PyNone)
          [''auth'' \<mapsto> PyAuth (HTTPBasicAuth ''u'' ''p'')])
       (run (answers (200::nat)) [Setup_credentials ''u'' ''p'']
          (init ''http://localhost:8042''))) = Inl (TypeError ''auth'')"
  by (simp add: evaluation get_patients_def)

subsection \<open>C6\<close>

text \<open>
  C6 (as amended). For every endpoint method called with \<open>params\<close>, \<open>data\<close> and \<open>json\<close>
  and with keywords that do not collide with an argument the client passes itself
  (\<open>self\<close>, \<open>route\<close>, the method's own payload names, \<open>url\<close>, and \<open>auth\<close> once the
  credentials are set), the call of the requests library carries the payload of the
  caller as it was given (\<open>params\<close> for a get method, \<open>data\<close> and \<open>json\<close> for a post or put
  method) and every keyword of the caller under its key with its value; the only other
  keywords of the call are the method's own payload names and \<open>auth\<close> when the credentials
  are set. Nothing is validated or rewritten on the way.
\<close>

theorem payload_and_kwargs_forwarded:
  assumes "(n, r) \<in> set (endpoints (obj s) a b c params data json)"
    and "\<not> collision r kw (obj s)"
  shows "\<exists>q. sent (snd (invoke lib r kw s)) = sent s @ [q] \<and>
           name_verb n = Some (func q) \<and>
           (\<forall>(k, v) \<in> set (caller_payload (func q) params data json). argument q k = Some v) \<and>
           (\<forall>k v. kw k = Some v \<longrightarrow> keyword_args q k = Some v) \<and>
           (\<forall>k. keyword_args q k \<noteq> None \<longrightarrow>
              kw k \<noteq> None \<or> k \<in> set (map fst (caller_payload (func q) params data json)) \<or>
              (k = ''auth'' \<and> credentials_are_set (obj s)))"
proof -
  have p: "payload r = caller_payload (helper_verb r) params data json"
    using assms(1) endpoints_payload[of params data json "obj s" a b c]
    by (auto simp: list_all_iff)
  have v: "name_verb n = Some (helper_verb r)"
    using assms(1) endpoints_verb[of "obj s" a b c params data json] by (auto simp: list_all_iff)
  obtain q where "invoke lib r kw s = (outcome (lib (sent s) q), s\<lparr>sent := sent s @ [q]\<rparr>)"
    and "func q = helper_verb r"
    and "\<forall>(k, v) \<in> set (payload r). argument q k = Some v"
    and "\<forall>k v. kw k = Some v \<longrightarrow> keyword_args q k = Some v"
    and "\<forall>k. keyword_args q k \<noteq> None \<longrightarrow>
              kw k \<noteq> None \<or> k \<in> set (map fst (payload r)) \<or>
              (k = ''auth'' \<and> credentials_are_set (obj s))"
    using invoke_forwards[OF assms(2), of lib] by blast
  with p v show ?thesis by (intro exI[of _ q]) simp
qed

theorem payload_and_kwargs_forwarded_witness:
  "sent (snd (invoke (answers (200::nat))
       (post_tools_find (obj (init ''http://localhost:8042''))
          (PyDict [(''Level'', PyStr ''Study'')]) PyNone)
       [''timeout'' \<mapsto> PyInt 5] (init ''http://localhost:8042''))) =
     [\<lparr>func = POST, args = [PyStr ''http://localhost:8042/tools/find''],
       keyword_args = [''timeout'' \<mapsto> PyInt 5, ''json'' \<mapsto> PyNone,
         ''data'' \<mapsto> PyDict [(''Level'', PyStr ''Study'')]]\<rparr>]"
  using payload_and_kwargs_forwarded
    [where n = "''post_tools_find''" and
        r = "post_tools_find (obj (init ''http://localhost:8042''))
          (PyDict [(''Level'', PyStr ''Study'')]) PyNone" and
        s = "init ''http://localhost:8042''" and a = "''x''" and b = "''y''" and c = "''z''" and
        params = PyNone and data = "PyDict [(''Level'', PyStr ''Study'')]" and json = PyNone and
        kw = "[''timeout'' \<mapsto> PyInt 5]" and lib = "answers (200::nat)"]
  by (simp add: evaluation endpoints_def resource_endpoints_def other_endpoints_def
      post_tools_find_def)

text \<open>
  C6 as stated fails: the keyword \<open>route\<close> of \<open>get_patients(params=..., route=...)\<close> is not
  forwarded. It collides with the parameter \<open>route\<close> of \<open>get_request\<close>, Python raises
  TypeError, and neither the keyword nor the payload reaches the requests library.
\<close>

theorem kwargs_forwarded_counterexample:
  "sent (snd (invoke (answers (200::nat))
       (get_patients (Orthanc ''http://localhost:8042'') (PyDict [(''expand'', PyStr '''')]))
       [''route'' \<mapsto> PyStr ''/studies''] (init ''http://localhost:8042''))) = [] \<and>
   fst (invoke (answers (200::nat))
       (get_patients (Orthanc ''http://localhost:8042'') (PyDict [(''expand'', PyStr '''')]))
       [''route'' \<mapsto> PyStr ''/studies''] (init ''http://localhost:8042'')) =
     Inl (TypeError ''route'')"
  by (simp add: evaluation get_patients_def)

subsection \<open>C7\<close>

text \<open>
  C7. Every endpoint method, on an object built by the constructor with \<open>url\<close> and used
  in any way since, delegates to exactly one of the four verb helpers, the one its name
  starts with: called with \<open>params\<close>, \<open>data\<close>, \<open>json\<close> and keywords that the call of the
  helper can bind, it does and returns what that helper does with the method's route,
  the caller's payload and the caller's keywords (and where a keyword names a parameter
  of the helper, the call of the helper is a TypeError). The route it passes begins with
  \<open>url\<close> followed by a slash.
\<close>

theorem endpoints_delegate_with_url_prefix:
  assumes "(n, r) \<in> set (endpoints (obj (run lib ops (init url))) a b c params data json)"
  shows "prefix (url @ ''/'') (route r) \<and>
         name_verb n = Some (helper_verb r) \<and>
         (duplicate (parameters r) kw = None \<longrightarrow>
            invoke lib r kw s =
              (case helper_verb r of
                 GET \<Rightarrow> get_request lib (route r) params kw s
               | DELETE \<Rightarrow> delete_request lib (route r) kw s
               | POST \<Rightarrow> post_request lib (route r) data json kw s
               | PUT \<Rightarrow> put_request lib (route r) data json kw s)) \<and>
         (\<forall>k. duplicate (parameters r) kw = Some k \<longrightarrow>
            invoke lib r kw s = (Inl (TypeError k), s))"
proof -
  let ?self = "obj (run lib ops (init url))"
  have "prefix (orthanc_url ?self @ ''/'') (route r)"
    using assms endpoints_prefix[of ?self a b c params data json] by (auto simp: list_all_iff)
  then have 1: "prefix (url @ ''/'') (route r)" by (simp add: reachable_fields)
  have 2: "name_verb n = Some (helper_verb r)"
    using assms endpoints_verb[of ?self a b c params data json] by (auto simp: list_all_iff)
  have "payload r = caller_payload (helper_verb r) params data json"
    using assms endpoints_payload[of params data json ?self a b c] by (auto simp: list_all_iff)
  then have 3: "duplicate (parameters r) kw = None \<longrightarrow>
            invoke lib r kw s =
              (case helper_verb r of
                 GET \<Rightarrow> get_request lib (route r) params kw s
               | DELETE \<Rightarrow> delete_request lib (route r) kw s
               | POST \<Rightarrow> post_request lib (route r) data json kw s
               | PUT \<Rightarrow> put_request lib (route r) data json kw s)"
    using helper_of_verb[of r params data json lib kw s] by (simp add: invoke_def)
  have 4: "\<forall>k. duplicate (parameters r) kw = Some k \<longrightarrow>
            invoke lib r kw s = (Inl (TypeError k), s)"
    by (simp add: invoke_def)
  from 1 2 3 4 show ?thesis by blast
qed

theorem endpoints_delegate_with_url_prefix_witness:
  "prefix ''http://localhost:8042/''
     (route (get_attachment_by_name
        (obj (run (answers (200::nat)) [Setup_credentials ''u'' ''p''] (init ''http://localhost:8042'')))
        ''Study'' ''118b'' ''dicom'' PyNone)) \<and>
   invoke (answers (200::nat))
     (get_attachment_by_name
        (obj (run (answers (200::nat)) [Setup_credentials ''u'' ''p''] (init ''http://localhost:8042'')))
        ''Study'' ''118b'' ''dicom'' PyNone)
     [''timeout'' \<mapsto> PyInt 5] (init ''http://localhost:8042'') =
   get_request (answers (200::nat)) ''http://localhost:8042/Study/118b/attachments/dicom'' PyNone
     [''timeout'' \<mapsto> PyInt 5] (init ''http://localhost:8042'') \<and>
   invoke (answers (200::nat))
     (post_tools_shutdown
        (obj (run (answers (200::nat)) [Setup_credentials ''u'' ''p''] (init ''http://localhost:8042'')))
        PyNone PyNone)
     [''timeout'' \<mapsto> PyInt 5] (init ''http://localhost:8042'') =
   post_request (answers (200::nat)) ''http://localhost:8042/tools/shutdown'' PyNone PyNone
     [''timeout'' \<mapsto> PyInt 5] (init ''http://localhost:8042'')"
  using endpoints_delegate_with_url_prefix
    [where n = "''get_attachment_by_name''" and
        r = "get_attachment_by_name
           (obj (run (answers (200::nat)) [Setup_credentials ''u'' ''p''] (init ''http://localhost:8042'')))
           ''Study'' ''118b'' ''dicom'' PyNone" and
        lib = "answers (200::nat)" and ops = "[Setup_credentials ''u'' ''p'']" and
        url = "''http://localhost:8042''" and a = "''Study''" and b = "''118b''" and
        c = "''dicom''" and params = PyNone and data = PyNone and json = PyNone and
        kw = "[''timeout'' \<mapsto> PyInt 5]" and s = "init ''http://localhost:8042''"]
    endpoints_delegate_with_url_prefix
    [where n = "''post_tools_shutdown''" and
        r = "post_tools_shutdown
           (obj (run (answers (200::nat)) [Setup_credentials ''u'' ''p''] (init ''http://localhost:8042'')))
           PyNone PyNone" and
        lib = "answers (200::nat)" and ops = "[Setup_credentials ''u'' ''p'']" and
        url = "''http://localhost:8042''" and a = "''Study''" and b = "''118b''" and
        c = "''dicom''" and params = PyNone and data = PyNone and json = PyNone and
        kw = "[''timeout'' \<mapsto> PyInt 5]" and s = "init ''http://localhost:8042''"]
  by (simp add: endpoints_def resource_endpoints_def other_endpoints_def
      get_attachment_by_name_def post_tools_shutdown_def parameters_def duplicate_def
      setup_credentials_def init_def Orthanc_def)

subsection \<open>C8\<close>

text \<open>
  C8. On every Orthanc object, after every sequence of operations from its construction:
  \<open>_credentials_are_set\<close> is True exactly when \<open>_credentials\<close> is not None; both say
  "unset" until \<open>setup_credentials\<close> is called (the empty sequence, and any sequence
  without that call); the credentials are those of the last \<open>setup_credentials\<close>; an
  operation \<open>x\<close> that is not \<open>setup_credentials\<close> leaves the object as it is, so nothing
  unsets them; and once \<open>setup_credentials\<close> has been called, every request an operation
  sends carries the credentials set last as its \<open>auth\<close> argument.
\<close>

theorem credentials_invariant:
  "\<not> credentials_are_set (Orthanc url) \<and> credentials (Orthanc url) = None \<and>
   (credentials_are_set (obj (run lib ops (init url))) \<longleftrightarrow>
      credentials (obj (run lib ops (init url))) \<noteq> None) \<and>
   (credentials_are_set (obj (run lib ops (init url))) \<longleftrightarrow> setup_called ops) \<and>
   credentials (obj (run lib ops (init url))) = last_credentials ops None \<and>
   (case x of
      Setup_credentials u p \<Rightarrow>
        credentials (obj (snd (exec lib x (run lib ops (init url))))) = Some (HTTPBasicAuth u p) \<and>
        credentials_are_set (obj (snd (exec lib x (run lib ops (init url)))))
    | _ \<Rightarrow> obj (snd (exec lib x (run lib ops (init url)))) = obj (run lib ops (init url))) \<and>
   (\<forall>c \<in> set (new_calls (run lib ops (init url)) (snd (exec lib x (run lib ops (init url))))).
      setup_called ops \<longrightarrow>
        keyword_args c ''auth'' = map_option PyAuth (last_credentials ops None))"
proof -
  let ?s = "run lib ops (init url)"
  have a: "credentials_are_set (obj ?s) \<longleftrightarrow> setup_called ops"
    by (simp add: reachable_fields)
  have b: "credentials (obj ?s) = last_credentials ops None"
    by (simp add: reachable_fields)
  have c: "credentials_are_set (obj ?s) \<longleftrightarrow> credentials (obj ?s) \<noteq> None"
  proof (cases "setup_called ops")
    case True
    then show ?thesis using last_credentials_called[of ops None] a b by auto
  next
    case False
    then show ?thesis using last_credentials_not_called[of ops None] a b by simp
  qed
  have d: "case x of
      Setup_credentials u p \<Rightarrow>
        credentials (obj (snd (exec lib x ?s))) = Some (HTTPBasicAuth u p) \<and>
        credentials_are_set (obj (snd (exec lib x ?s)))
    | _ \<Rightarrow> obj (snd (exec lib x ?s)) = obj ?s"
    by (cases x) (simp_all add: exec_obj setup_credentials_fields del: exec.simps)
  have e: "keyword_args c ''auth'' = map_option PyAuth (last_credentials ops None)"
    if h1: "c \<in> set (new_calls ?s (snd (exec lib x ?s)))" and h2: "setup_called ops" for c
  proof -
    from h1 h2 a have "keyword_args c ''auth'' = Some (auth_arg (obj ?s))"
      using exec_new_calls_auth[of c ?s lib x] by simp
    moreover obtain u p where "last_credentials ops None = Some (HTTPBasicAuth u p)"
      using last_credentials_called[OF h2, of None] by blast
    ultimately show ?thesis by (simp add: reachable_auth_arg)
  qed
  have f: "\<not> credentials_are_set (Orthanc url) \<and> credentials (Orthanc url) = None"
    by (simp add: Orthanc_def)
  from a b c d e f show ?thesis by blast
qed

theorem credentials_invariant_witness:
  "credentials_are_set
     (obj (run (answers (200::nat))
        [Setup_credentials ''alice'' ''a'',
         Endpoint (\<lambda>self. get_patients self PyNone) Map.empty,
         Setup_credentials ''bob'' ''b'']
        (init ''http://localhost:8042''))) \<and>
   credentials
     (obj (run (answers (200::nat))
        [Setup_credentials ''alice'' ''a'',
         Endpoint (\<lambda>self. get_patients self PyNone) Map.empty,
         Setup_credentials ''bob'' ''b'']
        (init ''http://localhost:8042''))) = Some (HTTPBasicAuth ''bob'' ''b'') \<and>
   map (\<lambda>c. keyword_args c ''auth'')
     (new_calls
        (run (answers (200::nat))
           [Setup_credentials ''alice'' ''a'',
            Endpoint (\<lambda>self. get_patients self PyNone) Map.empty,
            Setup_credentials ''bob'' ''b'']
           (init ''http://localhost:8042''))
        (snd (exec (answers (200::nat))
           (Endpoint (\<lambda>self. get_patients self PyNone) [''timeout'' \<mapsto> PyInt 5])
           (run (answers (200::nat))
              [Setup_credentials ''alice'' ''a'',
               Endpoint (\<lambda>self. get_patients self PyNone) Map.empty,
               Setup_credentials ''bob'' ''b'']
              (init ''http://localhost:8042''))))) =
     [Some (PyAuth (HTTPBasicAuth ''bob'' ''b''))]"
  using credentials_invariant
    [where lib = "answers (200::nat)" and
        ops = "[Setup_credentials ''alice'' ''a'',
          Endpoint (\<lambda>self. get_patients self PyNone) Map.empty,
          Setup_credentials ''bob'' ''b'']" and
        url = "''http://localhost:8042''" and
        x = "Endpoint (\<lambda>self. get_patients self PyNone) [''timeout'' \<mapsto> PyInt 5]"]
  by (simp add: evaluation get_patients_def)

subsection \<open>C9\<close>

text \<open>
  C9. For every identifier, \<open>get_instances_identifier_content\<close> requests
  \<open>{orthanc_url}/instances/{identifier}/content/\<close>, with the slash at the end, and
  \<open>get_instances_identifier_content_group_element_index\<close> requests
  \<open>{orthanc_url}/instances/{identifier}/content/{group_element}/{index}/...\<close>, the three
  dots being characters of the URL.
\<close>

theorem content_urls_deviate:
  assumes "\<forall>r. \<not> collision r kw (obj s)"
  shows "route (get_instances_identifier_content self identifier params) =
           orthanc_url self @ ''/instances/'' @ identifier @ ''/content/'' \<and>
         route (get_instances_identifier_content_group_element_index self identifier
                  group_element index params) =
           orthanc_url self @ ''/instances/'' @ identifier @ ''/content/'' @
             group_element @ ''/'' @ index @ ''/...'' \<and>
         (\<exists>q. sent (snd (invoke lib (get_instances_identifier_content (obj s) identifier params) kw s)) =
            sent s @ [q] \<and> func q = GET \<and>
            args q = [PyStr (orthanc_url (obj s) @ ''/instances/'' @ identifier @ ''/content/'')]) \<and>
         (\<exists>q. sent (snd (invoke lib
              (get_instances_identifier_content_group_element_index (obj s) identifier
                 group_element index params) kw s)) =
            sent s @ [q] \<and> func q = GET \<and>
            args q = [PyStr (orthanc_url (obj s) @ ''/instances/'' @ identifier @ ''/content/'' @
                        group_element @ ''/'' @ index @ ''/...'')])"
proof -
  have 1: "\<exists>q. sent (snd (invoke lib (get_instances_identifier_content (obj s) identifier params) kw s)) =
            sent s @ [q] \<and> func q = GET \<and>
            args q = [PyStr (orthanc_url (obj s) @ ''/instances/'' @ identifier @ ''/content/'')]"
    using invoke_requests[of "get_instances_identifier_content (obj s) identifier params" kw s lib]
      assms
    by (simp add: get_instances_identifier_content_def)
  have 2: "\<exists>q. sent (snd (invoke lib
              (get_instances_identifier_content_group_element_index (obj s) identifier
                 group_element index params) kw s)) =
            sent s @ [q] \<and> func q = GET \<and>
            args q = [PyStr (orthanc_url (obj s) @ ''/instances/'' @ identifier @ ''/content/'' @
                        group_element @ ''/'' @ index @ ''/...'')]"
    using invoke_requests[of "get_instances_identifier_content_group_element_index (obj s)
        identifier group_element index params" kw s lib] assms
    by (simp add: get_instances_identifier_content_group_element_index_def)
  have 3: "route (get_instances_identifier_content self identifier params) =
           orthanc_url self @ ''/instances/'' @ identifier @ ''/content/'' \<and>
         route (get_instances_identifier_content_group_element_index self identifier
                  group_element index params) =
           orthanc_url self @ ''/instances/'' @ identifier @ ''/content/'' @
             group_element @ ''/'' @ index @ ''/...''"
    by (simp add: get_instances_identifier_content_def
        get_instances_identifier_content_group_element_index_def)
  from 1 2 3 show ?thesis by blast
qed

theorem content_urls_deviate_witness:
  "map (\<lambda>q. (func q, args q))
     (sent (snd (invoke (answers (200::nat))
        (get_instances_identifier_content (obj (init ''http://localhost:8042'')) ''da20'' PyNone)
        Map.empty (init ''http://localhost:8042'')))) =
     [(GET, [PyStr ''http://localhost:8042/instances/da20/content/''])] \<and>
   map (\<lambda>q. (func q, args q))
     (sent (snd (invoke (answers (200::nat))
        (get_instances_identifier_content_group_element_index
           (obj (init ''http://localhost:8042'')) ''da20'' ''0008-1140'' ''0'' PyNone)
        Map.empty (init ''http://localhost:8042'')))) =
     [(GET, [PyStr ''http://localhost:8042/instances/da20/content/0008-1140/0/...''])]"
  using content_urls_deviate
    [where kw = Map.empty and s = "init ''http://localhost:8042''" and
        self = "Orthanc ''http://localhost:8042''" and ?identifier = "''da20''" and
        params = PyNone and group_element = "''0008-1140''" and index = "''0''" and
        lib = "answers (200::nat)"]
    no_collision_empty
  by (auto simp: init_fields)

subsection \<open>C10\<close>

text \<open>
  C10. The attachment and metadata methods do not validate \<open>resource_type\<close>: for every
  string \<open>resource_type\<close>, \<open>identifier\<close> and \<open>name\<close>, each of them puts the strings as
  they are into its route (\<open>{orthanc_url}/{resource_type}/{identifier}/attachments\<close> for
  \<open>get_attachments\<close>, \<open>.../metadata\<close> for \<open>get_resource_type_identifier_metadata\<close>, and
  \<open>.../attachments/{name}\<close> or \<open>.../metadata/{name}\<close> at the start of the others),
  sends the request to that URL and raises no error of its own: what it returns or
  raises is what the requests library does.
\<close>

theorem resource_type_not_validated:
  assumes "\<forall>r. \<not> collision r kw (obj s)"
    and "(n, r) \<in> set (resource_endpoints (obj s) resource_type identifier name params data json)"
  shows "route (get_attachments (obj s) resource_type identifier params) =
           orthanc_url (obj s) @ ''/'' @ resource_type @ ''/'' @ identifier @ ''/attachments'' \<and>
         route (get_resource_type_identifier_metadata (obj s) resource_type identifier params) =
           orthanc_url (obj s) @ ''/'' @ resource_type @ ''/'' @ identifier @ ''/metadata'' \<and>
         prefix (orthanc_url (obj s) @ ''/'' @ resource_type @ ''/'' @ identifier @ ''/'')
           (route r) \<and>
         (n = ''get_attachments'' \<or> n = ''get_resource_type_identifier_metadata'' \<or>
          prefix (orthanc_url (obj s) @ ''/'' @ resource_type @ ''/'' @ identifier @
                    ''/attachments/'' @ name) (route r) \<or>
          prefix (orthanc_url (obj s) @ ''/'' @ resource_type @ ''/'' @ identifier @
                    ''/metadata/'' @ name) (route r)) \<and>
         (\<exists>q. sent (snd (invoke lib r kw s)) = sent s @ [q] \<and>
              argument q ''url'' = Some (PyStr (route r))) \<and>
         (\<forall>k. fst (invoke lib r kw s) \<noteq> Inl (TypeError k))"
proof -
  have nc: "\<not> collision r kw (obj s)" using assms(1) by blast
  have 1: "route (get_attachments (obj s) resource_type identifier params) =
           orthanc_url (obj s) @ ''/'' @ resource_type @ ''/'' @ identifier @ ''/attachments''"
    by (simp add: get_attachments_def)
  have 2: "route (get_resource_type_identifier_metadata (obj s) resource_type identifier params) =
           orthanc_url (obj s) @ ''/'' @ resource_type @ ''/'' @ identifier @ ''/metadata''"
    by (simp add: get_resource_type_identifier_metadata_def)
  have 3: "prefix (orthanc_url (obj s) @ ''/'' @ resource_type @ ''/'' @ identifier @ ''/'')
           (route r) \<and>
         (n = ''get_attachments'' \<or> n = ''get_resource_type_identifier_metadata'' \<or>
          prefix (orthanc_url (obj s) @ ''/'' @ resource_type @ ''/'' @ identifier @
                    ''/attachments/'' @ name) (route r) \<or>
          prefix (orthanc_url (obj s) @ ''/'' @ resource_type @ ''/'' @ identifier @
                    ''/metadata/'' @ name) (route r))"
    using assms(2)
      resource_endpoints_embed[of "obj s" "resource_type" "identifier" "name" "params" "data" "json"]
    by (auto simp: list_all_iff)
  have 4: "\<exists>q. sent (snd (invoke lib r kw s)) = sent s @ [q] \<and>
              argument q ''url'' = Some (PyStr (route r))"
    using nc by (simp add: invoke_call sent_by_props(3))
  have 5: "\<forall>k. fst (invoke lib r kw s) \<noteq> Inl (TypeError k)"
    using nc invoke_no_TypeError by blast
  from 1 2 3 4 5 show ?thesis by blast
qed

theorem resource_type_not_validated_witness:
  "map (\<lambda>q. (func q, args q))
     (sent (snd (invoke (answers (404::nat))
        (get_attachment_by_name (obj (init ''http://localhost:8042''))
           ''Not a resource type'' ''118b'' ''dicom'' PyNone)
        Map.empty (init ''http://localhost:8042'')))) =
     [(GET, [PyStr ''http://localhost:8042/Not a resource type/118b/attachments/dicom''])] \<and>
   fst (invoke (answers (404::nat))
        (get_attachment_by_name (obj (init ''http://localhost:8042''))
           ''Not a resource type'' ''118b'' ''dicom'' PyNone)
        Map.empty (init ''http://localhost:8042'')) = Inr 404"
  using resource_type_not_validated
    [of Map.empty "init ''http://localhost:8042''" "''get_attachment_by_name''"
        "get_attachment_by_name (obj (init ''http://localhost:8042''))
           ''Not a resource type'' ''118b'' ''dicom'' PyNone"
        "''Not a resource type''" "''118b''" "''dicom''" PyNone PyNone PyNone "answers (404::nat)"]
    no_collision_empty
  by (simp add: evaluation resource_endpoints_def get_attachment_by_name_def)

end
